theory Spec2Isabelle
  imports Main "HOL-Library.Word"
begin

unbundle bit_operations_syntax

section \<open>Bytes, strings and Go run-time panics\<close>

text \<open>
  A Go \<^verbatim>\<open>[]byte\<close> is a list of 8-bit words and a Go \<^verbatim>\<open>string\<close> is an
  immutable sequence of bytes, modelled as a HOL \<open>string\<close> (a list of 8-bit characters).
  The conversions \<^verbatim>\<open>[]byte(s)\<close> and \<^verbatim>\<open>string(b)\<close> copy the bytes one by
  one.
\<close>

type_synonym byte = "8 word"

definition bytes_of_string :: "string \<Rightarrow> byte list" where
  "bytes_of_string s = map of_char s"

definition string_of_bytes :: "byte list \<Rightarrow> string" where
  "string_of_bytes b = map (\<lambda>x. char_of (unat x)) b"

text \<open>
  An index or slice expression that is out of range panics at run time. Nothing in the
  server recovers from a panic, so a panic ends the goroutine that raised it (and, with
  it, the process). A computation that may panic returns \<open>go_panic + 'a\<close>.
\<close>

datatype go_panic = IndexOutOfRange | SliceBoundsOutOfRange | TypeAssertionFailed

text \<open>
  The one-index slice expression \<^verbatim>\<open>data[lo:]\<close>: its upper bound is the length
  of \<open>data\<close>, so it panics when \<open>lo\<close> is above the length.
\<close>

definition slice_from :: "byte list \<Rightarrow> nat \<Rightarrow> go_panic + byte list" where
  "slice_from data lo =
     (if lo \<le> length data then Inr (drop lo data) else Inl SliceBoundsOutOfRange)"

text \<open>
  The two-index slice expression \<^verbatim>\<open>data[lo:hi]\<close>. For a slice operand Go checks
  \<open>hi\<close> against the capacity, not the length: the bytes of the backing array that lie
  between the length and the capacity can be read this way. The model carries them as
  \<open>extra\<close>, so the capacity of \<open>data\<close> is \<open>length data + length extra\<close>.
\<close>

definition slice :: "byte list \<Rightarrow> byte list \<Rightarrow> nat \<Rightarrow> nat \<Rightarrow> go_panic + byte list" where
  "slice data extra lo hi =
     (if hi \<le> length data + length extra \<and> lo \<le> hi
      then Inr (take (hi - lo) (drop lo (data @ extra)))
      else Inl SliceBoundsOutOfRange)"

text \<open>
  \<^verbatim>\<open>binary.LittleEndian.Uint16(b)\<close> reads \<^verbatim>\<open>b[0] | b[1]<<8\<close> after the bounds
  check \<^verbatim>\<open>_ = b[1]\<close>, which panics on fewer than two bytes.
  \<^verbatim>\<open>binary.LittleEndian.PutUint16\<close> writes the low byte first.
\<close>

definition Uint16 :: "byte list \<Rightarrow> go_panic + 16 word" where
  "Uint16 b =
     (if length b < 2 then Inl IndexOutOfRange
      else Inr (ucast (b ! 0) OR push_bit 8 (ucast (b ! 1))))"

definition PutUint16 :: "16 word \<Rightarrow> byte list" where
  "PutUint16 v = [ucast v, ucast (drop_bit 8 v)]"

section \<open>The frame codec\<close>

text \<open>
  Errors are values. The message of an error is all the server ever uses of it (it is
  printed with \<^verbatim>\<open>%v\<close>).
\<close>

datatype error = GoError string

text \<open>
  \<^verbatim>\<open>binary.LittleEndian.Uint16(data[offset:])\<close>: the slice expression is evaluated
  first, then the two bytes are read.
\<close>

definition read_u16 :: "byte list \<Rightarrow> nat \<Rightarrow> go_panic + 16 word" where
  "read_u16 data offset =
     (case slice_from data offset of
        Inl p \<Rightarrow> Inl p
      | Inr b \<Rightarrow> Uint16 b)"

text \<open>
  \<^verbatim>\<open>parseFramedRequest\<close>. The source has no bounds check of its own: every check
  is the run-time's. The error it returns is \<^verbatim>\<open>nil\<close> on every path that returns.
  \<open>data\<close> is the slice up to its length and \<open>extra\<close> the rest of its backing array.
\<close>

definition parseFramedRequest ::
  "byte list \<Rightarrow> byte list \<Rightarrow>
     go_panic + (string \<times> string \<times> byte list \<times> byte list \<times> error option)" where
  "parseFramedRequest data extra =
     (let offset = 0 in
      case read_u16 data offset of Inl p \<Rightarrow> Inl p | Inr w1 \<Rightarrow> (
      let serviceLen = unat w1;
          offset = offset + 2 in
      case slice data extra offset (offset + serviceLen) of Inl p \<Rightarrow> Inl p | Inr sb \<Rightarrow> (
      let service = string_of_bytes sb;
          offset = offset + serviceLen in
      case read_u16 data offset of Inl p \<Rightarrow> Inl p | Inr w2 \<Rightarrow> (
      let methodLen = unat w2;
          offset = offset + 2 in
      case slice data extra offset (offset + methodLen) of Inl p \<Rightarrow> Inl p | Inr mb \<Rightarrow> (
      let method = string_of_bytes mb;
          offset = offset + methodLen in
      case read_u16 data offset of Inl p \<Rightarrow> Inl p | Inr w3 \<Rightarrow> (
      let headerLen = unat w3;
          offset = offset + 2 in
      case slice data extra offset (offset + headerLen) of Inl p \<Rightarrow> Inl p | Inr headers \<Rightarrow> (
      let offset = offset + headerLen in
      case slice_from data offset of Inl p \<Rightarrow> Inl p | Inr payload \<Rightarrow> (
      Inr (service, method, headers, payload, None)))))))))"

text \<open>
  \<^verbatim>\<open>frameResponse\<close> writes into a \<^verbatim>\<open>bytes.Buffer\<close>, modelled as the list of
  bytes written so far. \<^verbatim>\<open>binary.Write\<close> of a \<^verbatim>\<open>uint16\<close> appends its two
  little-endian bytes and \<^verbatim>\<open>Buffer.Write\<close> appends its argument; on a
  \<^verbatim>\<open>bytes.Buffer\<close> neither returns an error. The conversion
  \<^verbatim>\<open>uint16(len(service))\<close> keeps the low 16 bits of the length.
\<close>

definition binary_Write_u16 :: "byte list \<Rightarrow> 16 word \<Rightarrow> byte list \<times> error option" where
  "binary_Write_u16 buf v = (buf @ PutUint16 v, None)"

definition Buffer_Write :: "byte list \<Rightarrow> byte list \<Rightarrow> byte list \<times> error option" where
  "Buffer_Write buf p = (buf @ p, None)"

definition frameResponse ::
  "string \<Rightarrow> string \<Rightarrow> byte list \<Rightarrow> byte list \<Rightarrow> error + byte list" where
  "frameResponse service method headers payload =
     (let buf = [] in
      case binary_Write_u16 buf (of_nat (length service)) of (_, Some err) \<Rightarrow> Inl err | (buf, None) \<Rightarrow> (
      case Buffer_Write buf (bytes_of_string service) of (_, Some err) \<Rightarrow> Inl err | (buf, None) \<Rightarrow> (
      case binary_Write_u16 buf (of_nat (length method)) of (_, Some err) \<Rightarrow> Inl err | (buf, None) \<Rightarrow> (
      case Buffer_Write buf (bytes_of_string method) of (_, Some err) \<Rightarrow> Inl err | (buf, None) \<Rightarrow> (
      case binary_Write_u16 buf (of_nat (length headers)) of (_, Some err) \<Rightarrow> Inl err | (buf, None) \<Rightarrow> (
      case Buffer_Write buf headers of (_, Some err) \<Rightarrow> Inl err | (buf, None) \<Rightarrow> (
      case Buffer_Write buf payload of (_, Some err) \<Rightarrow> Inl err | (buf, None) \<Rightarrow> (
      Inr buf))))))))"

section \<open>The server\<close>

subsection \<open>Data\<close>

text \<open>
  Modelled from the spec: the metadata bag (package \<^verbatim>\<open>metadata\<close> is not among the
  sources). It maps a key to an ordered list of values. The server iterates over it with
  \<^verbatim>\<open>range\<close>, whose order Go leaves open, so the bag is the list of its entries in the
  order the iteration visits them.
\<close>

type_synonym MD = "(string \<times> string list) list"

text \<open>
  The RPC envelope of package \<^verbatim>\<open>element\<close>, with the fields the server sets and
  reads. \<^verbatim>\<open>Payload\<close> has type \<^verbatim>\<open>any\<close>: the server stores a
  \<^verbatim>\<open>[]byte\<close> there, and an interceptor may replace it by any other value.
\<close>

datatype 'v any_payload = Bytes "byte list" | NotBytes 'v

record 'v RPCRequest =
  ID :: "64 word"
  ServiceName :: string
  Method :: string
  Payload :: "'v any_payload"

record 'v RPCResponse =
  Result :: 'v
  Error :: "error option"

text \<open>
  \<^verbatim>\<open>MethodHandler\<close>: \<^verbatim>\<open>func(srv any, ctx context.Context, dec func(any) error)
  (resp any, newCtx context.Context, err error)\<close>. The type \<open>'i\<close> stands for service
  implementations, \<open>'c\<close> for contexts and \<open>'v\<close> for application values. The decoder
  \<^verbatim>\<open>dec\<close> fills the value it is given and returns an error or \<^verbatim>\<open>nil\<close>; here it
  returns the filled value with the error. A handler is user code: it may panic.
\<close>

type_synonym 'v decoder = "'v \<Rightarrow> go_panic + (error option \<times> 'v)"

type_synonym ('c, 'v, 'i) MethodHandler =
  "'i \<Rightarrow> 'c \<Rightarrow> 'v decoder \<Rightarrow> go_panic + ('v \<times> 'c \<times> error option)"

record ('c, 'v, 'i) MethodDesc =
  MethodName :: string
  Handler :: "('c, 'v, 'i) MethodHandler"

text \<open>
  The field \<^verbatim>\<open>ServiceName\<close> of \<^verbatim>\<open>ServiceDesc\<close> is called \<open>ServiceName_of\<close> here:
  the envelope has a field of the same name.
\<close>

record ('c, 'v, 'i) ServiceDesc =
  ServiceImpl :: 'i
  ServiceName_of :: string
  Methods :: "string \<rightharpoonup> ('c, 'v, 'i) MethodDesc"

text \<open>
  \<^verbatim>\<open>net.UDPAddr\<close>; an IP address is a byte slice of length 4 or 16.
\<close>

record UDPAddr =
  IP :: "byte list"
  Port :: int
  Zone :: string

text \<open>
  The \<^verbatim>\<open>Server\<close> struct. Its collaborators (transport, serializer, metadata codec
  and interceptor chain) live in packages that are not among the sources; each of their
  methods that \<^verbatim>\<open>Start\<close> calls is a field holding a function of the call's
  arguments. A Go method returning \<^verbatim>\<open>(x, err)\<close> returns \<open>Inl err\<close> or \<open>Inr x\<close>;
  one returning only \<^verbatim>\<open>err\<close> returns an \<open>error option\<close>. The pointers the server
  dereferences (the descriptors in the registry, the envelopes the chain returns) are
  taken to be non-nil.
\<close>

record ('c, 'v, 'i) Server =
  transport_Send :: "string \<Rightarrow> 64 word \<Rightarrow> byte list \<Rightarrow> error option"
  serializer_Marshal :: "'v \<Rightarrow> error + byte list"
  serializer_Unmarshal :: "byte list \<Rightarrow> 'v \<Rightarrow> error option \<times> 'v"
  metadataCodec_DecodeHeaders :: "byte list \<Rightarrow> error + MD"
  metadataCodec_EncodeHeaders :: "MD \<Rightarrow> error + byte list"
  services :: "string \<rightharpoonup> ('c, 'v, 'i) ServiceDesc"
  rpcElementChain_ProcessRequest :: "'c \<Rightarrow> 'v RPCRequest \<Rightarrow> error + 'v RPCRequest"
  rpcElementChain_ProcessResponse :: "'c \<Rightarrow> 'v RPCResponse \<Rightarrow> error + 'v RPCResponse"

text \<open>
  The package-level functions \<^verbatim>\<open>Start\<close> calls: \<^verbatim>\<open>context.Background\<close>,
  \<^verbatim>\<open>metadata.NewIncomingContext\<close>, \<^verbatim>\<open>metadata.FromOutgoingContext\<close> and the
  \<^verbatim>\<open>String\<close> method of \<^verbatim>\<open>*net.UDPAddr\<close>.
\<close>

record 'c packages =
  context_Background :: 'c
  metadata_NewIncomingContext :: "'c \<Rightarrow> MD \<Rightarrow> 'c"
  metadata_FromOutgoingContext :: "'c \<Rightarrow> MD"
  UDPAddr_String :: "UDPAddr \<Rightarrow> string"

text \<open>
  What one call of \<^verbatim>\<open>transport.Receive\<close> returns:
  \<^verbatim>\<open>(data, addr, rpcID, err)\<close>. \<open>rcv_data\<close> is \<open>None\<close> for a \<^verbatim>\<open>nil\<close> slice;
  otherwise it holds the bytes of the slice and the rest of its backing array.
\<close>

record received =
  rcv_data :: "(byte list \<times> byte list) option"
  rcv_addr :: UDPAddr
  rcv_rpcID :: "64 word"
  rcv_err :: "error option"

subsection \<open>Effects\<close>

text \<open>
  The lines the server writes with \<^verbatim>\<open>log.Printf\<close> and \<^verbatim>\<open>log.Println\<close>, one
  constructor for each format string, in the order of the source:
  "Registered service: %s", "Server started... Waiting for messages.",
  "Error receiving data:", "Failed to parse framed request: %v",
  "RPC element processing error: %v", "Unknown service: %s", "Unknown method: %s.%s",
  "Failed to decode headers: %v", "Received headers for %s.%s:", "  %s: %s",
  "Handler error: %v", "RPC element response processing error: %v",
  "Error marshaling response: %v", "Failed to encode response headers: %v",
  "Failed to frame response: %v", "Error sending response: %v".
\<close>

datatype logline =
    RegisteredService string
  | ServerStarted
  | ErrorReceiving error
  | FailedParse error
  | ElementError error
  | UnknownService string
  | UnknownMethod string string
  | FailedDecodeHeaders error
  | ReceivedHeaders string string
  | HeaderLine string "string list"
  | HandlerError error
  | ResponseElementError error
  | MarshalError error
  | FailedEncodeHeaders error
  | FailedFrame error
  | SendError error

text \<open>
  The effects of the server, in program order: the log lines it writes and the calls it
  makes to its collaborators, each with the arguments of the call.
\<close>

datatype ('c, 'v, 'i) event =
    Log logline
  | Call_ProcessRequest 'c "'v RPCRequest"
  | Call_DecodeHeaders "byte list"
  | Call_Handler 'i 'c
  | Call_ProcessResponse 'c "'v RPCResponse"
  | Call_Marshal 'v
  | Call_EncodeHeaders MD
  | Call_Send string "64 word" "byte list"

datatype outcome = Continue | Panicked go_panic

subsection \<open>Operations\<close>

text \<open>
  \<^verbatim>\<open>RegisterService(desc, impl)\<close> stores the descriptor under its name and logs.
\<close>

definition RegisterService ::
  "('c, 'v, 'i) Server \<Rightarrow> ('c, 'v, 'i) ServiceDesc \<Rightarrow> 'j \<Rightarrow>
     ('c, 'v, 'i) Server \<times> ('c, 'v, 'i) event list" where
  "RegisterService s desc impl =
     (s\<lparr>services := (services s)(ServiceName_of desc \<mapsto> desc)\<rparr>,
      [Log (RegisteredService (ServiceName_of desc))])"

text \<open>
  The decoder closure handed to the handler:
  \<^verbatim>\<open>func(v any) error { return s.serializer.Unmarshal(rpcReq.Payload.([]byte), v) }\<close>.
  The type assertion panics when the payload is not a byte slice.
\<close>

definition decoder_of :: "('c, 'v, 'i) Server \<Rightarrow> 'v RPCRequest \<Rightarrow> 'v decoder" where
  "decoder_of s rpcReq v =
     (case Payload rpcReq of
        Bytes b \<Rightarrow> Inr (serializer_Unmarshal s b v)
      | NotBytes _ \<Rightarrow> Inl TypeAssertionFailed)"

text \<open>
  One iteration of the loop of \<^verbatim>\<open>Start\<close>, for one result of
  \<^verbatim>\<open>transport.Receive\<close>: the effects of the iteration, and whether the loop goes on
  (every \<^verbatim>\<open>continue\<close> and the end of the body) or the goroutine panics. The body
  is one block in the source; it is cut here into four consecutive parts, each handing
  the events so far (\<open>t\<close>) and the variables still in use to the next.

  Last part (lines 211 to 236): serialize, encode the response headers, frame, send.
\<close>

definition send_response ::
  "'c packages \<Rightarrow> ('c, 'v, 'i) Server \<Rightarrow> received \<Rightarrow> 'v RPCRequest \<Rightarrow> 'c \<Rightarrow> 'v RPCResponse \<Rightarrow>
     ('c, 'v, 'i) event list \<Rightarrow> ('c, 'v, 'i) event list \<times> outcome" where
  "send_response pk s r rpcReq ctx rpcResp t =
     (let t = t @ [Call_Marshal (Result rpcResp)] in
      case serializer_Marshal s (Result rpcResp) of
        Inl err \<Rightarrow> (t @ [Log (MarshalError err)], Continue) | Inr respPayloadBytes \<Rightarrow> (
      let respMD = metadata_FromOutgoingContext pk ctx;
          t = t @ [Call_EncodeHeaders respMD] in
      case metadataCodec_EncodeHeaders s respMD of
        Inl err \<Rightarrow> (t @ [Log (FailedEncodeHeaders err)], Continue) | Inr respHeaderBytes \<Rightarrow> (
      case frameResponse (ServiceName rpcReq) (Method rpcReq) respHeaderBytes respPayloadBytes of
        Inl err \<Rightarrow> (t @ [Log (FailedFrame err)], Continue) | Inr framedResp \<Rightarrow> (
      let t = t @ [Call_Send (UDPAddr_String pk (rcv_addr r)) (rcv_rpcID r) framedResp] in
      case transport_Send s (UDPAddr_String pk (rcv_addr r)) (rcv_rpcID r) framedResp of
        Some err \<Rightarrow> (t @ [Log (SendError err)], Continue)
      | None \<Rightarrow> (t, Continue)))))"

text \<open>
  Third part (lines 189 to 209): invoke the handler with the implementation stored in
  the descriptor, then run the response interceptors under the context the handler
  returned. The assignment \<^verbatim>\<open>resp, ctx, err := ...\<close> overwrites \<^verbatim>\<open>ctx\<close>.
\<close>

definition invoke_handler ::
  "'c packages \<Rightarrow> ('c, 'v, 'i) Server \<Rightarrow> received \<Rightarrow> 'v RPCRequest \<Rightarrow> ('c, 'v, 'i) ServiceDesc \<Rightarrow>
     ('c, 'v, 'i) MethodDesc \<Rightarrow> 'c \<Rightarrow> ('c, 'v, 'i) event list \<Rightarrow> ('c, 'v, 'i) event list \<times> outcome" where
  "invoke_handler pk s r rpcReq svcDesc methodDesc ctx t =
     (let t = t @ [Call_Handler (ServiceImpl svcDesc) ctx] in
      case Handler methodDesc (ServiceImpl svcDesc) ctx (decoder_of s rpcReq) of
        Inl p \<Rightarrow> (t, Panicked p) | Inr (resp, ctx, herr) \<Rightarrow> (
      case herr of Some err \<Rightarrow> (t @ [Log (HandlerError err)], Continue) | None \<Rightarrow> (
      let rpcResp0 = \<lparr>Result = resp, Error = herr\<rparr>;
          t = t @ [Call_ProcessResponse ctx rpcResp0] in
      case rpcElementChain_ProcessResponse s ctx rpcResp0 of
        Inl err \<Rightarrow> (t @ [Log (ResponseElementError err)], Continue)
      | Inr rpcResp \<Rightarrow> send_response pk s r rpcReq ctx rpcResp t)))"

text \<open>
  Second part (lines 148 to 187): build the envelope, run the request interceptors under
  \<^verbatim>\<open>context.Background()\<close>, look up the service and the method that the envelope
  returned by the interceptors names, decode the headers, build the incoming context and
  log the headers.
\<close>

definition dispatch ::
  "'c packages \<Rightarrow> ('c, 'v, 'i) Server \<Rightarrow> received \<Rightarrow> string \<Rightarrow> string \<Rightarrow> byte list \<Rightarrow> byte list \<Rightarrow>
     ('c, 'v, 'i) event list \<times> outcome" where
  "dispatch pk s r serviceName methodName reqHeaderBytes reqPayloadBytes =
     (let rpcReq0 = \<lparr>ID = rcv_rpcID r, ServiceName = serviceName, Method = methodName,
                       Payload = Bytes reqPayloadBytes\<rparr>;
          t = [Call_ProcessRequest (context_Background pk) rpcReq0] in
      case rpcElementChain_ProcessRequest s (context_Background pk) rpcReq0 of
        Inl err \<Rightarrow> (t @ [Log (ElementError err)], Continue) | Inr rpcReq \<Rightarrow> (
      case services s (ServiceName rpcReq) of
        None \<Rightarrow> (t @ [Log (UnknownService (ServiceName rpcReq))], Continue) | Some svcDesc \<Rightarrow> (
      case Methods svcDesc (Method rpcReq) of
        None \<Rightarrow> (t @ [Log (UnknownMethod (ServiceName rpcReq) (Method rpcReq))], Continue)
      | Some methodDesc \<Rightarrow> (
      let t = t @ [Call_DecodeHeaders reqHeaderBytes] in
      case metadataCodec_DecodeHeaders s reqHeaderBytes of
        Inl err \<Rightarrow> (t @ [Log (FailedDecodeHeaders err)], Continue) | Inr md \<Rightarrow> (
      let ctx = metadata_NewIncomingContext pk (context_Background pk) md;
          t = t @ [Log (ReceivedHeaders (ServiceName rpcReq) (Method rpcReq))]
                @ map (\<lambda>(k, v). Log (HeaderLine k v)) md in
      invoke_handler pk s r rpcReq svcDesc methodDesc ctx t)))))"

text \<open>
  First part (lines 130 to 146): the result of \<^verbatim>\<open>Receive\<close> and the frame parser.
\<close>

definition serve_one ::
  "'c packages \<Rightarrow> ('c, 'v, 'i) Server \<Rightarrow> received \<Rightarrow> ('c, 'v, 'i) event list \<times> outcome" where
  "serve_one pk s r =
     (case rcv_err r of Some err \<Rightarrow> ([Log (ErrorReceiving err)], Continue) | None \<Rightarrow> (
      case rcv_data r of None \<Rightarrow> ([], Continue) | Some (data, extra) \<Rightarrow> (
      case parseFramedRequest data extra of Inl p \<Rightarrow> ([], Panicked p)
      | Inr (serviceName, methodName, reqHeaderBytes, reqPayloadBytes, perr) \<Rightarrow> (
      case perr of Some err \<Rightarrow> ([Log (FailedParse err)], Continue)
      | None \<Rightarrow> dispatch pk s r serviceName methodName reqHeaderBytes reqPayloadBytes))))"

text \<open>
  The loop of \<^verbatim>\<open>Start\<close> never ends by itself. Its behaviour is given for every
  finite sequence of results of \<^verbatim>\<open>transport.Receive\<close>: the effects so far, and
  whether the server is still serving after them. A panic ends the loop; the results
  after it are never received.
\<close>

fun serve_loop ::
  "'c packages \<Rightarrow> ('c, 'v, 'i) Server \<Rightarrow> received list \<Rightarrow> ('c, 'v, 'i) event list \<times> outcome" where
  "serve_loop pk s [] = ([], Continue)"
| "serve_loop pk s (r # rs) =
     (case serve_one pk s r of
        (t, Panicked p) \<Rightarrow> (t, Panicked p)
      | (t, Continue) \<Rightarrow> (case serve_loop pk s rs of (t', out) \<Rightarrow> (t @ t', out)))"

definition Start ::
  "'c packages \<Rightarrow> ('c, 'v, 'i) Server \<Rightarrow> received list \<Rightarrow> ('c, 'v, 'i) event list \<times> outcome" where
  "Start pk s rs = (case serve_loop pk s rs of (t, out) \<Rightarrow> (Log ServerStarted # t, out))"

section \<open>The resolver\<close>

subsection \<open>Functions of the Go standard library\<close>

text \<open>
  \<^verbatim>\<open>strings.IndexByte\<close> and \<^verbatim>\<open>strings.LastIndexByte\<close>: the first and the last
  position of a byte in a string, \<open>None\<close> for Go's \<open>-1\<close>.
\<close>

fun IndexByte :: "string \<Rightarrow> char \<Rightarrow> nat option" where
  "IndexByte [] c = None"
| "IndexByte (x # xs) c =
     (if x = c then Some 0 else map_option Suc (IndexByte xs c))"

definition LastIndexByte :: "string \<Rightarrow> char \<Rightarrow> nat option" where
  "LastIndexByte s c =
     (case IndexByte (rev s) c of
        None \<Rightarrow> None
      | Some j \<Rightarrow> Some (length s - 1 - j))"

text \<open>
  \<^verbatim>\<open>net.SplitHostPort\<close>, after the Go standard library: the port starts after the
  last colon; a host in square brackets must end just before that colon; a host without
  brackets must not contain a colon; no further bracket may occur. The error is an
  \<^verbatim>\<open>*net.AddrError\<close>, here its reason.
\<close>

datatype AddrError =
    MissingPort
  | TooManyColons
  | MissingRBracket
  | UnexpectedLBracket
  | UnexpectedRBracket

definition SplitHostPort_rest ::
  "string \<Rightarrow> string \<Rightarrow> nat \<Rightarrow> nat \<Rightarrow> nat \<Rightarrow> AddrError + (string \<times> string)" where
  "SplitHostPort_rest hostport host j k i =
     (if IndexByte (drop j hostport) CHR ''['' \<noteq> None then Inl UnexpectedLBracket
      else if IndexByte (drop k hostport) CHR '']'' \<noteq> None then Inl UnexpectedRBracket
      else Inr (host, drop (i + 1) hostport))"

definition SplitHostPort :: "string \<Rightarrow> AddrError + (string \<times> string)" where
  "SplitHostPort hostport =
     (case LastIndexByte hostport CHR '':'' of
        None \<Rightarrow> Inl MissingPort
      | Some i \<Rightarrow>
          if hostport ! 0 = CHR ''['' then
            (case IndexByte hostport CHR '']'' of
               None \<Rightarrow> Inl MissingRBracket
             | Some end \<Rightarrow>
                 if end + 1 = length hostport then Inl MissingPort
                 else if end + 1 = i then
                   SplitHostPort_rest hostport (take (end - 1) (drop 1 hostport)) 1 (end + 1) i
                 else if hostport ! (end + 1) = CHR '':'' then Inl TooManyColons
                 else Inl MissingPort)
          else
            (let host = take i hostport in
             if IndexByte host CHR '':'' \<noteq> None then Inl TooManyColons
             else SplitHostPort_rest hostport host 0 0 i))"

text \<open>
  \<^verbatim>\<open>strings.CutPrefix(s, prefix)\<close>: the rest of \<open>s\<close> after the prefix, when \<open>s\<close>
  starts with it.
\<close>

definition CutPrefix :: "string \<Rightarrow> string \<Rightarrow> string \<times> bool" where
  "CutPrefix s pre =
     (if take (length pre) s = pre then (drop (length pre) s, True) else (s, False))"

text \<open>
  \<^verbatim>\<open>strconv.Atoi\<close>, after the Go standard library, for the 64-bit \<^verbatim>\<open>int\<close>: an
  optional sign, then one or more decimal digits. The digits are read from left to
  right into an unsigned 64-bit value: the first character that is no digit is a syntax
  error, and the first digit that takes the value out of 64 bits is a range error,
  whichever comes first. A value that fits 64 bits but not the range of \<^verbatim>\<open>int\<close> is a
  range error too. The error is a \<^verbatim>\<open>*strconv.NumError\<close>, here its reason.
\<close>

datatype NumError = ErrSyntax | ErrRange

definition is_digit :: "char \<Rightarrow> bool" where
  "is_digit c = (48 \<le> (of_char c :: nat) \<and> (of_char c :: nat) \<le> 57)"

fun parse_digits :: "string \<Rightarrow> nat \<Rightarrow> NumError + nat" where
  "parse_digits [] n = Inr n"
| "parse_digits (c # cs) n =
     (if \<not> is_digit c then Inl ErrSyntax
      else if 2 ^ 64 \<le> n * 10 + (of_char c - 48) then Inl ErrRange
      else parse_digits cs (n * 10 + (of_char c - 48)))"

definition Atoi :: "string \<Rightarrow> NumError + int" where
  "Atoi s =
     (if s = [] then Inl ErrSyntax
      else
        let neg = (s ! 0 = CHR ''-'');
            ds = (if s ! 0 = CHR ''-'' \<or> s ! 0 = CHR ''+'' then drop 1 s else s) in
        if ds = [] then Inl ErrSyntax
        else
          (case parse_digits ds 0 of
             Inl err \<Rightarrow> Inl err
           | Inr n \<Rightarrow>
               if \<not> neg \<and> 2 ^ 63 \<le> n then Inl ErrRange
               else if neg \<and> 2 ^ 63 < n then Inl ErrRange
               else Inr (if neg then - int n else int n)))"

text \<open>
  \<^verbatim>\<open>net.IPv4zero\<close> is \<^verbatim>\<open>net.IPv4(0, 0, 0, 0)\<close>: the 16-byte form of 0.0.0.0.
\<close>

definition IPv4zero :: "byte list" where
  "IPv4zero = [0, 0, 0, 0, 0, 0, 0, 0, 0, 0, 0xff, 0xff, 0, 0, 0, 0]"

subsection \<open>The resolver\<close>

text \<open>
  The \<^verbatim>\<open>Resolver\<close> struct holds a balancer, of which \<^verbatim>\<open>ResolveUDPTarget\<close> calls
  \<^verbatim>\<open>Pick\<close> and \<^verbatim>\<open>Name\<close>. \<^verbatim>\<open>net.ParseIP\<close> and \<^verbatim>\<open>net.LookupIP\<close> come
  with it as functions of their argument; \<^verbatim>\<open>nil\<close> is \<open>None\<close>.
\<close>

record Resolver =
  balancer_Pick :: "string \<Rightarrow> byte list list \<Rightarrow> byte list option"
  balancer_Name :: string
  net_ParseIP :: "string \<Rightarrow> byte list option"
  net_LookupIP :: "string \<Rightarrow> byte list list \<times> error option"

text \<open>
  The errors \<^verbatim>\<open>ResolveUDPTarget\<close> builds with \<^verbatim>\<open>fmt.Errorf\<close>:
  "invalid addr %q: %w", "invalid port in %q: %w", "DNS lookup failed for %q: %w" and
  "balancer failed to select an IP for %q". Its log lines: "DNS lookup for %s returned
  IPs:", "  [%d] %s" and "Balancer '%s' selected %s -> %s:%d".
\<close>

datatype resolve_error =
    InvalidAddr string AddrError
  | InvalidPort string NumError
  | DNSLookupFailed string "error option"
  | BalancerFailed string

datatype resolve_log =
    DNSLookupReturned string
  | ResolvedIP nat "byte list"
  | BalancerSelected string string "byte list" int

text \<open>The test \<^verbatim>\<open>err != nil\<close>.\<close>

definition is_error :: "error option \<Rightarrow> bool" where
  "is_error e = (case e of None \<Rightarrow> False | Some _ \<Rightarrow> True)"

text \<open>
  \<^verbatim>\<open>ResolveUDPTarget\<close>: the address or the error it returns, and the lines it logs.
\<close>

definition ResolveUDPTarget ::
  "Resolver \<Rightarrow> string \<Rightarrow> (resolve_error + UDPAddr) \<times> resolve_log list" where
  "ResolveUDPTarget r addr =
     (if addr = [] then (Inr \<lparr>IP = IPv4zero, Port = 0, Zone = []\<rparr>, [])
      else
        case (case SplitHostPort addr of
                Inr (host, portStr) \<Rightarrow> Inr (host, portStr)
              | Inl err \<Rightarrow>
                  (case CutPrefix addr '':'' of
                     (after, True) \<Rightarrow> Inr ([], after)
                   | (_, False) \<Rightarrow> Inl (InvalidAddr addr err))) of
          Inl e \<Rightarrow> (Inl e, [])
        | Inr (host, portStr) \<Rightarrow>
            (case Atoi portStr of
               Inl err \<Rightarrow> (Inl (InvalidPort addr err), [])
             | Inr port \<Rightarrow>
                 if host = [] then (Inr \<lparr>IP = IPv4zero, Port = port, Zone = []\<rparr>, [])
                 else
                   (case net_ParseIP r host of
                      Some ip \<Rightarrow> (Inr \<lparr>IP = ip, Port = port, Zone = []\<rparr>, [])
                    | None \<Rightarrow>
                        (case net_LookupIP r host of (ips, lerr) \<Rightarrow>
                           if is_error lerr \<or> length ips = 0
                           then (Inl (DNSLookupFailed host lerr), [])
                           else
                             (let logs = DNSLookupReturned host
                                         # map (\<lambda>(i, ip). ResolvedIP i ip) (enumerate 0 ips) in
                              case balancer_Pick r host ips of
                                None \<Rightarrow> (Inl (BalancerFailed host), logs)
                              | Some chosen \<Rightarrow>
                                  (Inr \<lparr>IP = chosen, Port = port, Zone = []\<rparr>,
                                   logs @ [BalancerSelected (balancer_Name r) addr chosen port]))))))"

section \<open>Vocabulary of the statements\<close>

text \<open>
  The envelope \<^verbatim>\<open>Start\<close> builds from a parsed frame before it calls the request
  interceptors (lines 149 to 154).
\<close>

definition request_envelope :: "received \<Rightarrow> string \<Rightarrow> string \<Rightarrow> byte list \<Rightarrow> 'v RPCRequest" where
  "request_envelope r sn mn pb =
     \<lparr>ID = rcv_rpcID r, ServiceName = sn, Method = mn, Payload = Bytes pb\<rparr>"

text \<open>
  The stage a call belongs to; a log line belongs to none. \<open>stages\<close> reads off a trace
  the sequence of collaborator calls made.
\<close>

datatype stage =
    SProcessRequest
  | SDecodeHeaders
  | SHandler
  | SProcessResponse
  | SMarshal
  | SEncodeHeaders
  | SSend

fun stage_of :: "('c, 'v, 'i) event \<Rightarrow> stage list" where
  "stage_of (Log l) = []"
| "stage_of (Call_ProcessRequest c rq) = [SProcessRequest]"
| "stage_of (Call_DecodeHeaders b) = [SDecodeHeaders]"
| "stage_of (Call_Handler i c) = [SHandler]"
| "stage_of (Call_ProcessResponse c rs) = [SProcessResponse]"
| "stage_of (Call_Marshal v) = [SMarshal]"
| "stage_of (Call_EncodeHeaders md) = [SEncodeHeaders]"
| "stage_of (Call_Send a i b) = [SSend]"

definition stages :: "('c, 'v, 'i) event list \<Rightarrow> stage list" where
  "stages t = concat (map stage_of t)"

text \<open>
  Two orders of the stages. \<open>code_stage_order\<close> is the order of the calls in the body of
  \<^verbatim>\<open>Start\<close>. \<open>spec_stage_order\<close> follows the words of the specification of the
  dispatcher (section 4.I, steps 4 to 9): decode the headers, run the request
  interceptors, invoke, run the response interceptors, marshal, send. A sequence of
  stages follows an order when it is an initial segment of it: a request may be dropped
  at any stage.
\<close>

definition code_stage_order :: "stage list" where
  "code_stage_order =
     [SProcessRequest, SDecodeHeaders, SHandler, SProcessResponse, SMarshal, SEncodeHeaders,
      SSend]"

definition spec_stage_order :: "stage list" where
  "spec_stage_order =
     [SDecodeHeaders, SProcessRequest, SHandler, SProcessResponse, SMarshal, SEncodeHeaders,
      SSend]"

definition follows_order :: "stage list \<Rightarrow> stage list \<Rightarrow> bool" where
  "follows_order order st = (take (length st) order = st)"

section \<open>A concrete echo service\<close>

text \<open>
  A small instance of the collaborators, to run the server on. A context is the pair of
  its incoming and its outgoing metadata. The serializer is the identity on byte
  strings. The header codec reads any non-empty header block as one entry and writes
  the keys of a bag. The interceptor chain is empty: both directions return the envelope
  unchanged.
\<close>

type_synonym demo_ctx = "MD \<times> MD"

definition demo_packages :: "demo_ctx packages" where
  "demo_packages =
     \<lparr>context_Background = ([], []),
      metadata_NewIncomingContext = (\<lambda>ctx md. (md, snd ctx)),
      metadata_FromOutgoingContext = snd,
      UDPAddr_String = (\<lambda>a. ''client'')\<rparr>"

definition empty_server :: "(demo_ctx, byte list, nat) Server" where
  "empty_server =
     \<lparr>transport_Send = (\<lambda>addr rpcID packet. None),
      serializer_Marshal = Inr,
      serializer_Unmarshal = (\<lambda>b v. (None, b)),
      metadataCodec_DecodeHeaders = (\<lambda>b. Inr (if b = [] then [] else [(''trace'', [''on''])])),
      metadataCodec_EncodeHeaders = (\<lambda>md. Inr (bytes_of_string (concat (map fst md)))),
      services = Map.empty,
      rpcElementChain_ProcessRequest = (\<lambda>ctx req. Inr req),
      rpcElementChain_ProcessResponse = (\<lambda>ctx resp. Inr resp)\<rparr>"

text \<open>
  The handler of \<^verbatim>\<open>Echo.Say\<close> decodes the request and returns it, with one entry of
  outgoing metadata. The service is registered with the implementation 7 in its
  descriptor and 99 as the second argument of \<^verbatim>\<open>RegisterService\<close>.
\<close>

definition echo_handler :: "(demo_ctx, byte list, nat) MethodHandler" where
  "echo_handler srv ctx dec =
     (case dec [] of
        Inl p \<Rightarrow> Inl p
      | Inr (Some err, _) \<Rightarrow> Inr ([], ctx, Some err)
      | Inr (None, req) \<Rightarrow> Inr (req, (fst ctx, [(''served-by'', [''echo''])]), None))"

definition echo_desc :: "(demo_ctx, byte list, nat) ServiceDesc" where
  "echo_desc =
     \<lparr>ServiceImpl = 7, ServiceName_of = ''Echo'',
      Methods = [''Say'' \<mapsto> \<lparr>MethodName = ''Say'', Handler = echo_handler\<rparr>]\<rparr>"

definition echo_server :: "(demo_ctx, byte list, nat) Server" where
  "echo_server = fst (RegisterService empty_server echo_desc (99 :: nat))"

text \<open>
  A request frame for \<^verbatim>\<open>Echo.Say\<close> with the header bytes 1, 2 and the payload 3, 4, 5,
  received from a peer under the RPC id 42.
\<close>

definition echo_frame :: "byte list" where
  "echo_frame = [4, 0, 69, 99, 104, 111, 3, 0, 83, 97, 121, 2, 0, 1, 2, 3, 4, 5]"

definition echo_request :: received where
  "echo_request =
     \<lparr>rcv_data = Some (echo_frame, []),
      rcv_addr = \<lparr>IP = [127, 0, 0, 1], Port = 4000, Zone = []\<rparr>,
      rcv_rpcID = 42, rcv_err = None\<rparr>"

text \<open>
  Variations: a buffer of three bytes whose first length prefix announces five bytes; a
  service whose handler returns an error; a server with no service whose request
  interceptor rejects every request; a server whose request interceptor maps the alias
  \<^verbatim>\<open>echo\<close> to the service \<^verbatim>\<open>Echo\<close> and whose response interceptor puts the
  byte 255 in front of the result, with a request frame that names the alias; and an
  echo server whose request interceptor replaces the payload by a value that is no byte
  slice.
\<close>

definition short_request :: received where
  "short_request =
     \<lparr>rcv_data = Some ([5, 0, 0x61], []),
      rcv_addr = \<lparr>IP = [127, 0, 0, 1], Port = 4000, Zone = []\<rparr>,
      rcv_rpcID = 41, rcv_err = None\<rparr>"

definition failing_handler :: "(demo_ctx, byte list, nat) MethodHandler" where
  "failing_handler srv ctx dec = Inr ([], ctx, Some (GoError ''boom''))"

definition failing_server :: "(demo_ctx, byte list, nat) Server" where
  "failing_server =
     empty_server\<lparr>services :=
       [''Echo'' \<mapsto> \<lparr>ServiceImpl = 7, ServiceName_of = ''Echo'',
          Methods = [''Say'' \<mapsto> \<lparr>MethodName = ''Say'', Handler = failing_handler\<rparr>]\<rparr>]\<rparr>"


definition wrap_server :: "(demo_ctx, byte list, nat) Server" where
  "wrap_server =
     echo_server
       \<lparr>rpcElementChain_ProcessRequest :=
          (\<lambda>ctx req. Inr (if ServiceName req = ''echo'' then req\<lparr>ServiceName := ''Echo''\<rparr> else req)),
        rpcElementChain_ProcessResponse :=
          (\<lambda>ctx resp. Inr (resp\<lparr>Result := 255 # Result resp\<rparr>))\<rparr>"

definition alias_frame :: "byte list" where
  "alias_frame = [4, 0, 101, 99, 104, 111, 3, 0, 83, 97, 121, 2, 0, 1, 2, 3, 4, 5]"

definition alias_request :: received where
  "alias_request =
     \<lparr>rcv_data = Some (alias_frame, []),
      rcv_addr = \<lparr>IP = [127, 0, 0, 1], Port = 4000, Zone = []\<rparr>,
      rcv_rpcID = 43, rcv_err = None\<rparr>"

definition retype_server :: "(demo_ctx, byte list, nat) Server" where
  "retype_server =
     echo_server
       \<lparr>rpcElementChain_ProcessRequest := (\<lambda>ctx req. Inr (req\<lparr>Payload := NotBytes []\<rparr>))\<rparr>"

text \<open>A service name of 65536 bytes.\<close>

definition long_name :: string where
  "long_name = replicate 65536 (CHR ''a'')"

text \<open>
  A resolver whose \<^verbatim>\<open>net.ParseIP\<close> knows the two literals used below, with the
  values Go gives them (both in the 16-byte form), whose DNS lookup finds nothing and
  whose balancer picks the first address.
\<close>

definition demo_resolver :: Resolver where
  "demo_resolver =
     \<lparr>balancer_Pick = (\<lambda>host ips. case ips of [] \<Rightarrow> None | ip # _ \<Rightarrow> Some ip),
      balancer_Name = ''first'',
      net_ParseIP =
        (\<lambda>h. if h = ''127.0.0.1'' then Some [0, 0, 0, 0, 0, 0, 0, 0, 0, 0, 0xff, 0xff, 127, 0, 0, 1]
              else if h = ''::1'' then Some [0, 0, 0, 0, 0, 0, 0, 0, 0, 0, 0, 0, 0, 0, 0, 1]
              else None),
      net_LookupIP = (\<lambda>host. ([], Some (GoError ''no such host'')))\<rparr>"

section \<open>Facts about the frame codec\<close>

lemma char_of_unat_of_char: "char_of (unat (of_char c :: byte)) = c"
proof -
  have "(of_char c :: byte) = of_nat (of_char c)"
    by (simp only: of_nat_of_char)
  then have "unat (of_char c :: byte) = (of_char c :: nat) mod 256"
    by (simp only: unat_of_nat) simp
  then show ?thesis
    by (simp only: char_of_mod_256 char_of_char)
qed

lemma of_char_char_of_unat: "(of_char (char_of (unat b)) :: byte) = b"
proof -
  have lt: "unat b < 256"
    using unsigned_less [of b, where ?'a = nat] by simp
  have "(of_char (char_of (unat b)) :: byte) = of_nat (of_char (char_of (unat b)))"
    by (simp only: of_nat_of_char)
  also have "\<dots> = of_nat (unat b mod 256)"
    by (simp only: of_char_of)
  also have "\<dots> = b"
    using lt by simp
  finally show ?thesis .
qed

lemma string_of_bytes_of_string: "string_of_bytes (bytes_of_string s) = s"
  by (induction s) (simp_all add: string_of_bytes_def bytes_of_string_def char_of_unat_of_char)

lemma bytes_of_string_of_bytes: "bytes_of_string (string_of_bytes b) = b"
  by (induction b) (simp_all add: string_of_bytes_def bytes_of_string_def of_char_char_of_unat)

lemma length_bytes_of_string: "length (bytes_of_string s) = length s"
  by (simp add: bytes_of_string_def)

lemma length_string_of_bytes: "length (string_of_bytes b) = length b"
  by (simp add: string_of_bytes_def)

lemma Uint16_PutUint16: "Uint16 (PutUint16 v @ rest) = Inr v"
proof -
  have "ucast (ucast v :: byte) OR push_bit 8 (ucast (ucast (drop_bit 8 v) :: byte)) = v"
    by (rule bit_word_eqI) (auto simp add: bit_simps)
  then show ?thesis
    by (simp add: Uint16_def PutUint16_def)
qed

lemma length_PutUint16: "length (PutUint16 v) = 2"
  by (simp add: PutUint16_def)

lemma read_u16_at: "read_u16 (pre @ PutUint16 v @ rest) (length pre) = Inr v"
  by (simp add: read_u16_def slice_from_def Uint16_PutUint16)

lemma slice_at:
  "slice (pre @ mid @ rest) extra (length pre) (length pre + length mid) = Inr mid"
  by (simp add: slice_def)

lemma slice_from_at: "slice_from (pre @ rest) (length pre) = Inr rest"
  by (simp add: slice_from_def)

text \<open>The frame encoder never fails, and this is the frame it builds.\<close>

lemma frameResponse_eq:
  "frameResponse service method headers payload =
     Inr (PutUint16 (of_nat (length service)) @ bytes_of_string service @
          PutUint16 (of_nat (length method)) @ bytes_of_string method @
          PutUint16 (of_nat (length headers)) @ headers @ payload)"
  by (simp add: frameResponse_def binary_Write_u16_def Buffer_Write_def)

lemma unat_u16_of_nat: "n \<le> 65535 \<Longrightarrow> unat (of_nat n :: 16 word) = n"
  by (simp add: unat_of_nat)

text \<open>
  The parser on a buffer laid out as a frame whose three length prefixes agree with the
  segments that follow them.
\<close>

lemma parse_layout:
  assumes "unat w1 = length sb" "unat w2 = length mb" "unat w3 = length hb"
  shows "parseFramedRequest
           (PutUint16 w1 @ sb @ PutUint16 w2 @ mb @ PutUint16 w3 @ hb @ pl) extra =
         Inr (string_of_bytes sb, string_of_bytes mb, hb, pl, None)"
proof -
  let ?d = "PutUint16 w1 @ sb @ PutUint16 w2 @ mb @ PutUint16 w3 @ hb @ pl"
  have r1: "read_u16 ?d 0 = Inr w1"
    using read_u16_at [of "[]" w1] by simp
  have s1: "slice ?d extra 2 (2 + length sb) = Inr sb"
    using slice_at [of "PutUint16 w1" sb _ extra] by (simp add: length_PutUint16)
  have r2: "read_u16 ?d (2 + length sb) = Inr w2"
    using read_u16_at [of "PutUint16 w1 @ sb" w2] by (simp add: length_PutUint16)
  have s2: "slice ?d extra (2 + length sb + 2) (2 + length sb + 2 + length mb) = Inr mb"
    using slice_at [of "PutUint16 w1 @ sb @ PutUint16 w2" mb _ extra]
    by (simp add: length_PutUint16)
  have r3: "read_u16 ?d (2 + length sb + 2 + length mb) = Inr w3"
    using read_u16_at [of "PutUint16 w1 @ sb @ PutUint16 w2 @ mb" w3]
    by (simp add: length_PutUint16)
  have s3: "slice ?d extra (2 + length sb + 2 + length mb + 2)
              (2 + length sb + 2 + length mb + 2 + length hb) = Inr hb"
    using slice_at [of "PutUint16 w1 @ sb @ PutUint16 w2 @ mb @ PutUint16 w3" hb _ extra]
    by (simp add: length_PutUint16)
  have s4: "slice_from ?d (2 + length sb + 2 + length mb + 2 + length hb) = Inr pl"
    using slice_from_at [of "PutUint16 w1 @ sb @ PutUint16 w2 @ mb @ PutUint16 w3 @ hb" pl]
    by (simp add: length_PutUint16 add.assoc)
  show ?thesis
    unfolding parseFramedRequest_def Let_def
    by (simp only: r1 s1 r2 s2 r3 s3 s4 assms add_0 sum.case)
qed

text \<open>The parser on the frame the encoder builds, for segments that fit their prefixes.\<close>

lemma parse_frame:
  assumes "length s \<le> 65535" "length m \<le> 65535" "length h \<le> 65535"
  shows "parseFramedRequest
           (PutUint16 (of_nat (length s)) @ bytes_of_string s @
            PutUint16 (of_nat (length m)) @ bytes_of_string m @
            PutUint16 (of_nat (length h)) @ h @ p) extra =
         Inr (s, m, h, p, None)"
  using assms
    parse_layout [of "of_nat (length s)" "bytes_of_string s" "of_nat (length m)"
      "bytes_of_string m" "of_nat (length h)" h p extra]
  by (simp add: unat_u16_of_nat length_bytes_of_string string_of_bytes_of_string)

subsection \<open>Claim C1: the frame round trip\<close>

text \<open>
  C1. For every service name, method name, header bytes and payload bytes, the first
  three at most 65535 bytes long, the frame encoder returns a frame, and the frame
  decoder applied to that frame returns the same four components and no error. This
  holds whatever lies behind the frame in its backing array.
\<close>

theorem frame_round_trip:
  assumes "length s \<le> 65535" "length m \<le> 65535" "length h \<le> 65535"
  shows "\<exists>frame. frameResponse s m h p = Inr frame \<and>
           parseFramedRequest frame extra = Inr (s, m, h, p, None)"
  using parse_frame [OF assms, of p extra]
  by (simp add: frameResponse_eq)

lemma echo_frame_eq: "frameResponse ''Echo'' ''Say'' [1, 2] [3, 4, 5] = Inr echo_frame"
  by (simp add: frameResponse_eq PutUint16_def bytes_of_string_def echo_frame_def)

theorem frame_round_trip_witness:
  "length ''Echo'' \<le> 65535 \<and> length ''Say'' \<le> 65535 \<and> length [1, 2 :: byte] \<le> 65535 \<and>
   frameResponse ''Echo'' ''Say'' [1, 2] [3, 4, 5] = Inr echo_frame \<and>
   parseFramedRequest echo_frame [] = Inr (''Echo'', ''Say'', [1, 2], [3, 4, 5], None)"
  using frame_round_trip [of "''Echo''" "''Say''" "[1, 2]" "[3, 4, 5]" "[]"]
  by (simp add: echo_frame_eq)

subsection \<open>What the parser returns\<close>

lemma slice_length: "slice data extra lo hi = Inr b \<Longrightarrow> length b = hi - lo"
  by (auto simp add: slice_def split: if_splits)

lemma slice_from_length: "slice_from data lo = Inr b \<Longrightarrow> lo + length b = length data"
  by (auto simp add: slice_from_def split: if_splits)

lemma unat_u16_le: "unat (w :: 16 word) \<le> 65535"
  using unsigned_less [of w, where ?'a = nat] by simp

text \<open>
  Whenever the parser returns, its error is \<^verbatim>\<open>nil\<close>, the three prefixed segments are
  at most 65535 bytes long, and the buffer holds the three prefixes and the four
  segments exactly. On every other buffer it panics.
\<close>

lemma parse_returns:
  assumes "parseFramedRequest data extra = Inr (s, m, h, p, err)"
  shows "err = None \<and> length s \<le> 65535 \<and> length m \<le> 65535 \<and> length h \<le> 65535 \<and>
         length data = 6 + length s + length m + length h + length p"
  using assms unfolding parseFramedRequest_def Let_def
  by (auto split: sum.splits dest!: slice_length slice_from_length
      simp add: length_string_of_bytes intro: unat_u16_le)

lemma parse_short: "length data < 2 \<Longrightarrow> parseFramedRequest data extra = Inl IndexOutOfRange"
  by (simp add: parseFramedRequest_def read_u16_def slice_from_def Uint16_def)

lemma parse_short_request:
  "parseFramedRequest [5, 0, 0x61] extra = Inl SliceBoundsOutOfRange"
  by (simp add: parseFramedRequest_def read_u16_def slice_from_def Uint16_def slice_def
      split: sum.splits)

lemma parse_echo_frame:
  "parseFramedRequest echo_frame extra = Inr (''Echo'', ''Say'', [1, 2], [3, 4, 5], None)"
  using parse_frame [of "''Echo''" "''Say''" "[1, 2]" "[3, 4, 5]" extra] echo_frame_eq
  by (simp add: frameResponse_eq)

lemma alias_frame_eq: "frameResponse ''echo'' ''Say'' [1, 2] [3, 4, 5] = Inr alias_frame"
  by (simp add: frameResponse_eq PutUint16_def bytes_of_string_def alias_frame_def)

lemma parse_alias_frame:
  "parseFramedRequest alias_frame extra = Inr (''echo'', ''Say'', [1, 2], [3, 4, 5], None)"
  using parse_frame [of "''echo''" "''Say''" "[1, 2]" "[3, 4, 5]" extra] alias_frame_eq
  by (simp add: frameResponse_eq)

lemma length_long_name: "length long_name = 65536"
  by (simp only: long_name_def length_replicate)

subsection \<open>Claim C9: names longer than 65535 bytes\<close>

text \<open>
  C9. For a service or method name longer than 65535 bytes the frame encoder does not
  fail. It writes the length modulo \<open>2 ^ 16\<close> as the length prefix, so a prefix disagrees
  with the number of bytes that follow it, and the decoder does not return the four
  components from that frame, whatever lies behind the frame in its backing array.
\<close>

theorem long_name_breaks_round_trip:
  assumes "65535 < length s \<or> 65535 < length m"
  shows "\<exists>frame w1 w2.
           frameResponse s m h p = Inr frame \<and>
           frame = PutUint16 w1 @ bytes_of_string s @ PutUint16 w2 @ bytes_of_string m @
                   PutUint16 (of_nat (length h)) @ h @ p \<and>
           unat w1 = length s mod 2 ^ 16 \<and> unat w2 = length m mod 2 ^ 16 \<and>
           (unat w1 \<noteq> length s \<or> unat w2 \<noteq> length m) \<and>
           (\<forall>extra. parseFramedRequest frame extra \<noteq> Inr (s, m, h, p, None))"
proof -
  let ?w1 = "of_nat (length s) :: 16 word"
  let ?w2 = "of_nat (length m) :: 16 word"
  let ?frame = "PutUint16 ?w1 @ bytes_of_string s @ PutUint16 ?w2 @ bytes_of_string m @
                PutUint16 (of_nat (length h)) @ h @ p"
  have enc: "frameResponse s m h p = Inr ?frame"
    by (rule frameResponse_eq)
  have w1: "unat ?w1 = length s mod 2 ^ 16" and w2: "unat ?w2 = length m mod 2 ^ 16"
    by (simp_all add: unat_of_nat)
  have dis: "unat ?w1 \<noteq> length s \<or> unat ?w2 \<noteq> length m"
    using assms unat_u16_le [of ?w1] unat_u16_le [of ?w2] by auto
  have nort: "parseFramedRequest ?frame extra \<noteq> Inr (s, m, h, p, None)" for extra
    using assms parse_returns [of ?frame extra s m h p None] by auto
  from enc w1 w2 dis nort show ?thesis by blast
qed

theorem long_name_breaks_round_trip_witness:
  "(65535 < length long_name \<or> 65535 < length ''Say'') \<and>
   frameResponse long_name ''Say'' [] [] =
     Inr (PutUint16 0 @ bytes_of_string long_name @ PutUint16 3 @ bytes_of_string ''Say'' @
          PutUint16 0) \<and>
   parseFramedRequest
     (PutUint16 0 @ bytes_of_string long_name @ PutUint16 3 @ bytes_of_string ''Say'' @
      PutUint16 0) [] \<noteq> Inr (long_name, ''Say'', [], [], None)"
proof -
  have len: "65535 < length long_name \<or> 65535 < length ''Say''"
    by (simp add: length_long_name)
  have wrap: "(65536 :: 16 word) = 0"
    by (simp add: word_eq_iff_unsigned [where ?'a = nat])
  have enc: "frameResponse long_name ''Say'' [] [] =
     Inr (PutUint16 0 @ bytes_of_string long_name @ PutUint16 3 @ bytes_of_string ''Say'' @
          PutUint16 0)"
    by (simp add: frameResponse_eq length_long_name wrap)
  from long_name_breaks_round_trip [OF len, of "[]" "[]"] enc len show ?thesis
    by auto
qed

section \<open>Facts about the server\<close>

subsection \<open>The trace of one iteration\<close>

lemma stages_Nil: "stages [] = []"
  by (simp add: stages_def)

lemma stages_Cons: "stages (e # t) = stage_of e @ stages t"
  by (simp add: stages_def)

lemma stages_append: "stages (t @ u) = stages t @ stages u"
  by (simp add: stages_def)

lemma stages_header_lines: "stages (map (\<lambda>(k, v). Log (HeaderLine k v)) md) = []"
  by (induction md) (auto simp add: stages_def)

lemma stage_of_in_stages: "e \<in> set t \<Longrightarrow> set (stage_of e) \<subseteq> set (stages t)"
  by (auto simp add: stages_def)

lemma serve_one_dispatch:
  assumes "rcv_err r = None" "rcv_data r = Some (data, extra)"
    "parseFramedRequest data extra = Inr (sn, mn, hb, pb, perr)"
  shows "serve_one pk s r = dispatch pk s r sn mn hb pb"
proof -
  have "perr = None"
    using assms(3) by (simp add: parse_returns)
  with assms show ?thesis
    by (simp add: serve_one_def)
qed

lemma dispatch_to_handler:
  assumes "rpcElementChain_ProcessRequest s (context_Background pk) (request_envelope r sn mn pb) = Inr rq"
    "services s (ServiceName rq) = Some d" "Methods d (Method rq) = Some m"
    "metadataCodec_DecodeHeaders s hb = Inr md"
  shows "dispatch pk s r sn mn hb pb =
     invoke_handler pk s r rq d m (metadata_NewIncomingContext pk (context_Background pk) md)
       ([Call_ProcessRequest (context_Background pk) (request_envelope r sn mn pb),
         Call_DecodeHeaders hb, Log (ReceivedHeaders (ServiceName rq) (Method rq))]
        @ map (\<lambda>(k, v). Log (HeaderLine k v)) md)"
  using assms by (simp add: dispatch_def request_envelope_def)

lemma send_response_events:
  "\<exists>u n. fst (send_response pk s r rq ctx rr t) = t @ u \<and>
       stages u = take n [SMarshal, SEncodeHeaders, SSend]"
proof -
  have a: "[SMarshal] = take 1 [SMarshal, SEncodeHeaders, SSend]" by simp
  have b: "[SMarshal, SEncodeHeaders] = take 2 [SMarshal, SEncodeHeaders, SSend]" by simp
  have c: "[SMarshal, SEncodeHeaders, SSend] = take 3 [SMarshal, SEncodeHeaders, SSend]" by simp
  show ?thesis
    unfolding send_response_def Let_def
    by (auto simp add: stages_Cons stages_Nil split: sum.splits option.splits intro: a b c)
qed

lemma invoke_handler_events:
  "\<exists>u n. fst (invoke_handler pk s r rq d m ctx t) = t @ Call_Handler (ServiceImpl d) ctx # u \<and>
       stages u = take n [SProcessResponse, SMarshal, SEncodeHeaders, SSend]"
proof (cases "Handler m (ServiceImpl d) ctx (decoder_of s rq)")
  case (Inl p)
  then have "fst (invoke_handler pk s r rq d m ctx t) = t @ Call_Handler (ServiceImpl d) ctx # []"
    by (simp add: invoke_handler_def)
  moreover have "stages [] = take 0 [SProcessResponse, SMarshal, SEncodeHeaders, SSend]"
    by (simp add: stages_Nil)
  ultimately show ?thesis by blast
next
  case (Inr res)
  obtain resp ctx' herr where res: "res = (resp, ctx', herr)"
    by (cases res) auto
  show ?thesis
  proof (cases herr)
    case (Some err)
    with Inr res have "fst (invoke_handler pk s r rq d m ctx t) =
        t @ Call_Handler (ServiceImpl d) ctx # [Log (HandlerError err)]"
      by (simp add: invoke_handler_def)
    moreover have "stages [Log (HandlerError err)] =
        take 0 [SProcessResponse, SMarshal, SEncodeHeaders, SSend]"
      by (simp add: stages_Cons stages_Nil)
    ultimately show ?thesis by blast
  next
    case None
    let ?rr0 = "\<lparr>Result = resp, Error = None\<rparr>"
    show ?thesis
    proof (cases "rpcElementChain_ProcessResponse s ctx' ?rr0")
      case (Inl err)
      with Inr res None have "fst (invoke_handler pk s r rq d m ctx t) =
          t @ Call_Handler (ServiceImpl d) ctx #
            [Call_ProcessResponse ctx' ?rr0, Log (ResponseElementError err)]"
        by (simp add: invoke_handler_def)
      moreover have "stages [Call_ProcessResponse ctx' ?rr0, Log (ResponseElementError err)] =
          take 1 [SProcessResponse, SMarshal, SEncodeHeaders, SSend]"
        by (simp add: stages_Cons stages_Nil)
      ultimately show ?thesis by blast
    next
      case (Inr rr)
      let ?t = "t @ [Call_Handler (ServiceImpl d) ctx, Call_ProcessResponse ctx' ?rr0]"
      obtain u n where u: "fst (send_response pk s r rq ctx' rr ?t) = ?t @ u"
        "stages u = take n [SMarshal, SEncodeHeaders, SSend]"
        using send_response_events [of pk s r rq ctx' rr ?t] by blast
      have "fst (invoke_handler pk s r rq d m ctx t) = fst (send_response pk s r rq ctx' rr ?t)"
        using \<open>Handler m (ServiceImpl d) ctx (decoder_of s rq) = Inr res\<close> res None Inr
        by (simp add: invoke_handler_def)
      then have "fst (invoke_handler pk s r rq d m ctx t) =
          t @ Call_Handler (ServiceImpl d) ctx # (Call_ProcessResponse ctx' ?rr0 # u)"
        using u(1) by simp
      moreover have "stages (Call_ProcessResponse ctx' ?rr0 # u) =
          take (Suc n) [SProcessResponse, SMarshal, SEncodeHeaders, SSend]"
        using u(2) by (simp add: stages_Cons)
      ultimately show ?thesis by blast
    qed
  qed
qed


lemma serve_one_cases:
  obtains
    (quiet) l where "fst (serve_one pk s r) = [] \<or> fst (serve_one pk s r) = [Log l]"
  | (stopped) data extra sn mn hb pb l where
      "rcv_data r = Some (data, extra)"
      "parseFramedRequest data extra = Inr (sn, mn, hb, pb, None)"
      "fst (serve_one pk s r) =
         [Call_ProcessRequest (context_Background pk) (request_envelope r sn mn pb), Log l]"
  | (undecoded) data extra sn mn hb pb rq d m l where
      "rcv_data r = Some (data, extra)"
      "parseFramedRequest data extra = Inr (sn, mn, hb, pb, None)"
      "rpcElementChain_ProcessRequest s (context_Background pk) (request_envelope r sn mn pb) = Inr rq"
      "services s (ServiceName rq) = Some d" "Methods d (Method rq) = Some m"
      "fst (serve_one pk s r) =
         [Call_ProcessRequest (context_Background pk) (request_envelope r sn mn pb),
          Call_DecodeHeaders hb, Log l]"
  | (invoked) data extra sn mn hb pb rq d m md u n where
      "rcv_data r = Some (data, extra)"
      "parseFramedRequest data extra = Inr (sn, mn, hb, pb, None)"
      "rpcElementChain_ProcessRequest s (context_Background pk) (request_envelope r sn mn pb) = Inr rq"
      "services s (ServiceName rq) = Some d" "Methods d (Method rq) = Some m"
      "metadataCodec_DecodeHeaders s hb = Inr md"
      "fst (serve_one pk s r) =
         [Call_ProcessRequest (context_Background pk) (request_envelope r sn mn pb),
          Call_DecodeHeaders hb, Log (ReceivedHeaders (ServiceName rq) (Method rq))]
         @ map (\<lambda>(k, v). Log (HeaderLine k v)) md
         @ Call_Handler (ServiceImpl d)
             (metadata_NewIncomingContext pk (context_Background pk) md) # u"
      "stages u = take n [SProcessResponse, SMarshal, SEncodeHeaders, SSend]"
proof (cases "rcv_err r")
  case (Some err)
  then have "fst (serve_one pk s r) = [Log (ErrorReceiving err)]"
    by (simp add: serve_one_def)
  then show ?thesis using quiet by blast
next
  case None
  note noerr = this
  show ?thesis
  proof (cases "rcv_data r")
    case None
    with noerr have "fst (serve_one pk s r) = []"
      by (simp add: serve_one_def)
    then show ?thesis using quiet by blast
  next
    case (Some de)
    obtain data extra where de: "de = (data, extra)"
      by (cases de) auto
    note data = Some [unfolded de]
    show ?thesis
    proof (cases "parseFramedRequest data extra")
      case (Inl p)
      with noerr data have "fst (serve_one pk s r) = []"
        by (simp add: serve_one_def)
      then show ?thesis using quiet by blast
    next
      case (Inr res)
      obtain sn mn hb pb perr where res: "res = (sn, mn, hb, pb, perr)"
        by (cases res) auto
      have "perr = None"
        using Inr res by (simp add: parse_returns)
      with Inr res have parse: "parseFramedRequest data extra = Inr (sn, mn, hb, pb, None)"
        by simp
      have disp: "serve_one pk s r = dispatch pk s r sn mn hb pb"
        using noerr data parse by (rule serve_one_dispatch)
      let ?bg = "context_Background pk"
      let ?env = "request_envelope r sn mn pb :: 'b RPCRequest"
      show ?thesis
      proof (cases "rpcElementChain_ProcessRequest s ?bg ?env")
        case (Inl err)
        then have "fst (serve_one pk s r) = [Call_ProcessRequest ?bg ?env, Log (ElementError err)]"
          by (simp add: disp dispatch_def request_envelope_def)
        then show ?thesis using stopped data parse by blast
      next
        case (Inr rq)
        note chain = this
        show ?thesis
        proof (cases "services s (ServiceName rq)")
          case None
          with chain have "fst (serve_one pk s r) =
              [Call_ProcessRequest ?bg ?env, Log (UnknownService (ServiceName rq))]"
            by (simp add: disp dispatch_def request_envelope_def)
          then show ?thesis using stopped data parse by blast
        next
          case (Some d)
          note svc = this
          show ?thesis
          proof (cases "Methods d (Method rq)")
            case None
            with chain svc have "fst (serve_one pk s r) =
                [Call_ProcessRequest ?bg ?env, Log (UnknownMethod (ServiceName rq) (Method rq))]"
              by (simp add: disp dispatch_def request_envelope_def)
            then show ?thesis using stopped data parse by blast
          next
            case (Some m)
            note meth = this
            show ?thesis
            proof (cases "metadataCodec_DecodeHeaders s hb")
              case (Inl err)
              with chain svc meth have "fst (serve_one pk s r) =
                  [Call_ProcessRequest ?bg ?env, Call_DecodeHeaders hb,
                   Log (FailedDecodeHeaders err)]"
                by (simp add: disp dispatch_def request_envelope_def)
              then show ?thesis using undecoded data parse chain svc meth by blast
            next
              case (Inr md)
              let ?ctx = "metadata_NewIncomingContext pk ?bg md"
              let ?t = "[Call_ProcessRequest ?bg ?env, Call_DecodeHeaders hb,
                         Log (ReceivedHeaders (ServiceName rq) (Method rq))]
                        @ map (\<lambda>(k, v). Log (HeaderLine k v)) md"
              obtain u n where u:
                "fst (invoke_handler pk s r rq d m ?ctx ?t) = ?t @ Call_Handler (ServiceImpl d) ?ctx # u"
                "stages u = take n [SProcessResponse, SMarshal, SEncodeHeaders, SSend]"
                using invoke_handler_events [of pk s r rq d m ?ctx ?t] by blast
              have "fst (serve_one pk s r) = ?t @ Call_Handler (ServiceImpl d) ?ctx # u"
                using u(1) by (simp add: disp dispatch_to_handler [OF chain svc meth Inr])
              then show ?thesis
                using invoked [OF data parse chain svc meth Inr _ u(2)] by simp
            qed
          qed
        qed
      qed
    qed
  qed
qed


lemma take_code_order:
  "[SProcessRequest] = take 1 code_stage_order"
  "[SProcessRequest, SDecodeHeaders] = take 2 code_stage_order"
  "SProcessRequest # SDecodeHeaders # SHandler #
     take n [SProcessResponse, SMarshal, SEncodeHeaders, SSend] = take (Suc (Suc (Suc n))) code_stage_order"
  by (simp_all add: code_stage_order_def)

lemma follows_order_take: "follows_order order (take n order)"
  by (simp add: follows_order_def min_def)

lemma serve_one_order: "follows_order code_stage_order (stages (fst (serve_one pk s r)))"
proof (cases rule: serve_one_cases [of pk s r])
  case (quiet l)
  then have "stages (fst (serve_one pk s r)) = take 0 code_stage_order"
    by (auto simp add: stages_Cons stages_Nil)
  then show ?thesis by (simp only: follows_order_take)
next
  case (stopped data extra sn mn hb pb l)
  then have "stages (fst (serve_one pk s r)) = take 1 code_stage_order"
    by (simp add: stages_Cons stages_Nil code_stage_order_def)
  then show ?thesis by (simp only: follows_order_take)
next
  case (undecoded data extra sn mn hb pb rq d m l)
  then have "stages (fst (serve_one pk s r)) = take 2 code_stage_order"
    by (simp add: stages_Cons stages_Nil code_stage_order_def)
  then show ?thesis by (simp only: follows_order_take)
next
  case (invoked data extra sn mn hb pb rq d m md u n)
  then have "stages (fst (serve_one pk s r)) = take (Suc (Suc (Suc n))) code_stage_order"
    by (simp add: stages_Cons stages_Nil stages_append stages_header_lines
        take_code_order(3) [symmetric])
  then show ?thesis by (simp only: follows_order_take)
qed

lemma not_later_stage:
  assumes "stages u = take n [SProcessResponse, SMarshal, SEncodeHeaders, SSend]" "e \<in> set u"
  shows "stage_of e \<noteq> [SProcessRequest]" "stage_of e \<noteq> [SDecodeHeaders]" "stage_of e \<noteq> [SHandler]"
proof -
  have "set (stage_of e) \<subseteq> set [SProcessResponse, SMarshal, SEncodeHeaders, SSend]"
    using stage_of_in_stages [OF assms(2)] set_take_subset [of n "[SProcessResponse, SMarshal, SEncodeHeaders, SSend]"]
    unfolding assms(1) by blast
  then show "stage_of e \<noteq> [SProcessRequest]" "stage_of e \<noteq> [SDecodeHeaders]" "stage_of e \<noteq> [SHandler]"
    by auto
qed

lemma handler_call_inversion:
  assumes "Call_Handler i ctx \<in> set (fst (serve_one pk s r))"
  shows "\<exists>data extra sn mn hb pb rq d m md.
      rcv_data r = Some (data, extra) \<and>
      parseFramedRequest data extra = Inr (sn, mn, hb, pb, None) \<and>
      rpcElementChain_ProcessRequest s (context_Background pk) (request_envelope r sn mn pb) = Inr rq \<and>
      services s (ServiceName rq) = Some d \<and> Methods d (Method rq) = Some m \<and>
      metadataCodec_DecodeHeaders s hb = Inr md \<and>
      i = ServiceImpl d \<and> ctx = metadata_NewIncomingContext pk (context_Background pk) md"
proof (cases rule: serve_one_cases [of pk s r])
  case (quiet l)
  with assms show ?thesis by auto
next
  case (stopped data extra sn mn hb pb l)
  with assms show ?thesis by auto
next
  case (undecoded data extra sn mn hb pb rq d m l)
  with assms show ?thesis by auto
next
  case (invoked data extra sn mn hb pb rq d m md u n)
  have "Call_Handler i ctx \<notin> set u"
    using not_later_stage(3) [OF invoked(8), of "Call_Handler i ctx"] by auto
  with assms invoked(7)
  have "i = ServiceImpl d \<and> ctx = metadata_NewIncomingContext pk (context_Background pk) md"
    by auto
  with invoked(1-6) show ?thesis by blast
qed

lemma decode_call_inversion:
  assumes "Call_DecodeHeaders hb' \<in> set (fst (serve_one pk s r))"
  shows "\<exists>data extra sn mn pb rq d m.
      rcv_data r = Some (data, extra) \<and>
      parseFramedRequest data extra = Inr (sn, mn, hb', pb, None) \<and>
      rpcElementChain_ProcessRequest s (context_Background pk) (request_envelope r sn mn pb) = Inr rq \<and>
      services s (ServiceName rq) = Some d \<and> Methods d (Method rq) = Some m"
proof (cases rule: serve_one_cases [of pk s r])
  case (quiet l)
  with assms show ?thesis by auto
next
  case (stopped data extra sn mn hb pb l)
  with assms show ?thesis by auto
next
  case (undecoded data extra sn mn hb pb rq d m l)
  with assms have "hb' = hb" by auto
  with undecoded(1-5) show ?thesis by blast
next
  case (invoked data extra sn mn hb pb rq d m md u n)
  have "Call_DecodeHeaders hb' \<notin> set u"
    using not_later_stage(2) [OF invoked(8), of "Call_DecodeHeaders hb'"] by auto
  with assms invoked(7) have "hb' = hb" by auto
  with invoked(1-5) show ?thesis by blast
qed

lemma chain_call_inversion:
  assumes "Call_ProcessRequest c rq0 \<in> set (fst (serve_one pk s r))"
  shows "\<exists>data extra sn mn hb pb.
      rcv_data r = Some (data, extra) \<and>
      parseFramedRequest data extra = Inr (sn, mn, hb, pb, None) \<and>
      c = context_Background pk \<and> rq0 = request_envelope r sn mn pb"
proof (cases rule: serve_one_cases [of pk s r])
  case (quiet l)
  with assms show ?thesis by auto
next
  case (stopped data extra sn mn hb pb l)
  with assms have "c = context_Background pk \<and> rq0 = request_envelope r sn mn pb" by auto
  with stopped(1,2) show ?thesis by blast
next
  case (undecoded data extra sn mn hb pb rq d m l)
  with assms have "c = context_Background pk \<and> rq0 = request_envelope r sn mn pb" by auto
  with undecoded(1,2) show ?thesis by blast
next
  case (invoked data extra sn mn hb pb rq d m md u n)
  have "Call_ProcessRequest c rq0 \<notin> set u"
    using not_later_stage(1) [OF invoked(8), of "Call_ProcessRequest c rq0"] by auto
  with assms invoked(7) have "c = context_Background pk \<and> rq0 = request_envelope r sn mn pb"
    by auto
  with invoked(1,2) show ?thesis by blast
qed

text \<open>What a request that parses makes the dispatcher do, stage after stage.\<close>

lemma dispatch_invokes:
  assumes "rpcElementChain_ProcessRequest s (context_Background pk) (request_envelope r sn mn pb)
       = Inr rq"
    "services s (ServiceName rq) = Some d" "Methods d (Method rq) = Some m"
    "metadataCodec_DecodeHeaders s hb = Inr md"
  shows "\<exists>u n. fst (dispatch pk s r sn mn hb pb) =
       [Call_ProcessRequest (context_Background pk) (request_envelope r sn mn pb),
        Call_DecodeHeaders hb, Log (ReceivedHeaders (ServiceName rq) (Method rq))]
       @ map (\<lambda>(k, v). Log (HeaderLine k v)) md
       @ Call_Handler (ServiceImpl d)
           (metadata_NewIncomingContext pk (context_Background pk) md) # u \<and>
       stages u = take n [SProcessResponse, SMarshal, SEncodeHeaders, SSend]"
  unfolding dispatch_to_handler [OF assms]
  using invoke_handler_events [of pk s r rq d m
      "metadata_NewIncomingContext pk (context_Background pk) md"
      "[Call_ProcessRequest (context_Background pk) (request_envelope r sn mn pb),
        Call_DecodeHeaders hb, Log (ReceivedHeaders (ServiceName rq) (Method rq))]
       @ map (\<lambda>(k, v). Log (HeaderLine k v)) md"]
  by simp

lemma dispatch_decodes:
  assumes "rpcElementChain_ProcessRequest s (context_Background pk) (request_envelope r sn mn pb)
       = Inr rq"
    "services s (ServiceName rq) = Some d" "Methods d (Method rq) = Some m"
  shows "\<exists>u. fst (dispatch pk s r sn mn hb pb) =
       Call_ProcessRequest (context_Background pk) (request_envelope r sn mn pb) #
       Call_DecodeHeaders hb # u"
proof (cases "metadataCodec_DecodeHeaders s hb")
  case (Inl err)
  with assms show ?thesis
    by (simp add: dispatch_def request_envelope_def)
next
  case (Inr md)
  from dispatch_invokes [OF assms Inr] show ?thesis
    by auto
qed

lemma dispatch_intercepts:
  "\<exists>u. fst (dispatch pk s r sn mn hb pb) =
       Call_ProcessRequest (context_Background pk) (request_envelope r sn mn pb) # u"
proof (cases "rpcElementChain_ProcessRequest s (context_Background pk)
    (request_envelope r sn mn pb)")
  case (Inl err)
  then show ?thesis
    by (simp add: dispatch_def request_envelope_def)
next
  case (Inr rq)
  note chain = this
  show ?thesis
  proof (cases "services s (ServiceName rq)")
    case None
    with chain show ?thesis
      by (simp add: dispatch_def request_envelope_def)
  next
    case (Some d)
    note svc = this
    show ?thesis
    proof (cases "Methods d (Method rq)")
      case None
      with chain svc show ?thesis
        by (simp add: dispatch_def request_envelope_def)
    next
      case (Some m)
      from dispatch_decodes [OF chain svc Some] show ?thesis
        by blast
    qed
  qed
qed

lemma dispatch_handler_result:
  assumes "rpcElementChain_ProcessRequest s (context_Background pk) (request_envelope r sn mn pb)
       = Inr rq"
    "services s (ServiceName rq) = Some d" "Methods d (Method rq) = Some m"
    "metadataCodec_DecodeHeaders s hb = Inr md"
  shows
    "(\<forall>p. Handler m (ServiceImpl d) (metadata_NewIncomingContext pk (context_Background pk) md)
           (decoder_of s rq) = Inl p \<longrightarrow>
        dispatch pk s r sn mn hb pb =
          ([Call_ProcessRequest (context_Background pk) (request_envelope r sn mn pb),
            Call_DecodeHeaders hb, Log (ReceivedHeaders (ServiceName rq) (Method rq))]
           @ map (\<lambda>(k, v). Log (HeaderLine k v)) md
           @ [Call_Handler (ServiceImpl d)
                (metadata_NewIncomingContext pk (context_Background pk) md)],
           Panicked p)) \<and>
     (\<forall>resp ctx' err.
        Handler m (ServiceImpl d) (metadata_NewIncomingContext pk (context_Background pk) md)
           (decoder_of s rq) = Inr (resp, ctx', Some err) \<longrightarrow>
        dispatch pk s r sn mn hb pb =
          ([Call_ProcessRequest (context_Background pk) (request_envelope r sn mn pb),
            Call_DecodeHeaders hb, Log (ReceivedHeaders (ServiceName rq) (Method rq))]
           @ map (\<lambda>(k, v). Log (HeaderLine k v)) md
           @ [Call_Handler (ServiceImpl d)
                (metadata_NewIncomingContext pk (context_Background pk) md),
              Log (HandlerError err)],
           Continue)) \<and>
     (\<forall>resp ctx'.
        Handler m (ServiceImpl d) (metadata_NewIncomingContext pk (context_Background pk) md)
           (decoder_of s rq) = Inr (resp, ctx', None) \<longrightarrow>
        (\<exists>u. fst (dispatch pk s r sn mn hb pb) =
          [Call_ProcessRequest (context_Background pk) (request_envelope r sn mn pb),
           Call_DecodeHeaders hb, Log (ReceivedHeaders (ServiceName rq) (Method rq))]
          @ map (\<lambda>(k, v). Log (HeaderLine k v)) md
          @ [Call_Handler (ServiceImpl d)
               (metadata_NewIncomingContext pk (context_Background pk) md),
             Call_ProcessResponse ctx' \<lparr>Result = resp, Error = None\<rparr>] @ u))"
proof (intro conjI allI impI)
  fix p
  assume "Handler m (ServiceImpl d) (metadata_NewIncomingContext pk (context_Background pk) md)
           (decoder_of s rq) = Inl p"
  then show "dispatch pk s r sn mn hb pb =
          ([Call_ProcessRequest (context_Background pk) (request_envelope r sn mn pb),
            Call_DecodeHeaders hb, Log (ReceivedHeaders (ServiceName rq) (Method rq))]
           @ map (\<lambda>(k, v). Log (HeaderLine k v)) md
           @ [Call_Handler (ServiceImpl d)
                (metadata_NewIncomingContext pk (context_Background pk) md)],
           Panicked p)"
    by (simp add: dispatch_to_handler [OF assms] invoke_handler_def)
next
  fix resp ctx' err
  assume "Handler m (ServiceImpl d) (metadata_NewIncomingContext pk (context_Background pk) md)
           (decoder_of s rq) = Inr (resp, ctx', Some err)"
  then show "dispatch pk s r sn mn hb pb =
          ([Call_ProcessRequest (context_Background pk) (request_envelope r sn mn pb),
            Call_DecodeHeaders hb, Log (ReceivedHeaders (ServiceName rq) (Method rq))]
           @ map (\<lambda>(k, v). Log (HeaderLine k v)) md
           @ [Call_Handler (ServiceImpl d)
                (metadata_NewIncomingContext pk (context_Background pk) md),
              Log (HandlerError err)],
           Continue)"
    by (simp add: dispatch_to_handler [OF assms] invoke_handler_def)
next
  fix resp ctx'
  assume h: "Handler m (ServiceImpl d)
      (metadata_NewIncomingContext pk (context_Background pk) md) (decoder_of s rq)
      = Inr (resp, ctx', None)"
  let ?ctx = "metadata_NewIncomingContext pk (context_Background pk) md"
  let ?t = "[Call_ProcessRequest (context_Background pk) (request_envelope r sn mn pb),
             Call_DecodeHeaders hb, Log (ReceivedHeaders (ServiceName rq) (Method rq))]
            @ map (\<lambda>(k, v). Log (HeaderLine k v)) md"
  let ?rr0 = "\<lparr>Result = resp, Error = None\<rparr>"
  have "\<exists>u. fst (dispatch pk s r sn mn hb pb) =
          ?t @ [Call_Handler (ServiceImpl d) ?ctx, Call_ProcessResponse ctx' ?rr0] @ u"
  proof (cases "rpcElementChain_ProcessResponse s ctx' ?rr0")
    case (Inl err)
    with h show ?thesis
      by (simp add: dispatch_to_handler [OF assms] invoke_handler_def)
  next
    case (Inr rr)
    obtain u where u: "fst (send_response pk s r rq ctx' rr
          (?t @ [Call_Handler (ServiceImpl d) ?ctx, Call_ProcessResponse ctx' ?rr0])) =
        (?t @ [Call_Handler (ServiceImpl d) ?ctx, Call_ProcessResponse ctx' ?rr0]) @ u"
      using send_response_events [of pk s r rq ctx' rr
          "?t @ [Call_Handler (ServiceImpl d) ?ctx, Call_ProcessResponse ctx' ?rr0]"]
      by blast
    have "fst (dispatch pk s r sn mn hb pb) =
        fst (send_response pk s r rq ctx' rr
          (?t @ [Call_Handler (ServiceImpl d) ?ctx, Call_ProcessResponse ctx' ?rr0]))"
      using h Inr by (simp add: dispatch_to_handler [OF assms] invoke_handler_def)
    with u show ?thesis
      by simp
  qed
  then show "\<exists>u. fst (dispatch pk s r sn mn hb pb) =
          [Call_ProcessRequest (context_Background pk) (request_envelope r sn mn pb),
           Call_DecodeHeaders hb, Log (ReceivedHeaders (ServiceName rq) (Method rq))]
          @ map (\<lambda>(k, v). Log (HeaderLine k v)) md
          @ [Call_Handler (ServiceImpl d)
               (metadata_NewIncomingContext pk (context_Background pk) md),
             Call_ProcessResponse ctx' \<lparr>Result = resp, Error = None\<rparr>] @ u"
    by simp
qed

subsection \<open>The echo service at work\<close>

lemmas demo_defs =
  demo_packages_def empty_server_def echo_server_def echo_desc_def echo_handler_def
  RegisterService_def echo_request_def request_envelope_def decoder_of_def

lemma echo_trace:
  "serve_one demo_packages echo_server echo_request =
     ([Call_ProcessRequest ([], [])
         \<lparr>ID = 42, ServiceName = ''Echo'', Method = ''Say'', Payload = Bytes [3, 4, 5]\<rparr>,
       Call_DecodeHeaders [1, 2],
       Log (ReceivedHeaders ''Echo'' ''Say''),
       Log (HeaderLine ''trace'' [''on'']),
       Call_Handler 7 ([(''trace'', [''on''])], []),
       Call_ProcessResponse ([(''trace'', [''on''])], [(''served-by'', [''echo''])])
         \<lparr>Result = [3, 4, 5], Error = None\<rparr>,
       Call_Marshal [3, 4, 5],
       Call_EncodeHeaders [(''served-by'', [''echo''])],
       Call_Send ''client'' 42
         [4, 0, 69, 99, 104, 111, 3, 0, 83, 97, 121,
          9, 0, 115, 101, 114, 118, 101, 100, 45, 98, 121, 3, 4, 5]],
      Continue)"
  by (simp add: serve_one_def dispatch_def invoke_handler_def send_response_def
      parse_echo_frame demo_defs frameResponse_eq PutUint16_def bytes_of_string_def)

lemma empty_trace:
  "serve_one demo_packages empty_server echo_request =
     ([Call_ProcessRequest ([], [])
         \<lparr>ID = 42, ServiceName = ''Echo'', Method = ''Say'', Payload = Bytes [3, 4, 5]\<rparr>,
       Log (UnknownService ''Echo'')],
      Continue)"
  by (simp add: serve_one_def dispatch_def parse_echo_frame demo_defs)


lemma failing_trace:
  "serve_one demo_packages failing_server echo_request =
     ([Call_ProcessRequest ([], [])
         \<lparr>ID = 42, ServiceName = ''Echo'', Method = ''Say'', Payload = Bytes [3, 4, 5]\<rparr>,
       Call_DecodeHeaders [1, 2],
       Log (ReceivedHeaders ''Echo'' ''Say''),
       Log (HeaderLine ''trace'' [''on'']),
       Call_Handler 7 ([(''trace'', [''on''])], []),
       Log (HandlerError (GoError ''boom''))],
      Continue)"
  by (simp add: serve_one_def dispatch_def invoke_handler_def parse_echo_frame demo_defs
      failing_server_def failing_handler_def)

lemma wrap_trace:
  "serve_one demo_packages wrap_server alias_request =
     ([Call_ProcessRequest ([], [])
         \<lparr>ID = 43, ServiceName = ''echo'', Method = ''Say'', Payload = Bytes [3, 4, 5]\<rparr>,
       Call_DecodeHeaders [1, 2],
       Log (ReceivedHeaders ''Echo'' ''Say''),
       Log (HeaderLine ''trace'' [''on'']),
       Call_Handler 7 ([(''trace'', [''on''])], []),
       Call_ProcessResponse ([(''trace'', [''on''])], [(''served-by'', [''echo''])])
         \<lparr>Result = [3, 4, 5], Error = None\<rparr>,
       Call_Marshal [255, 3, 4, 5],
       Call_EncodeHeaders [(''served-by'', [''echo''])],
       Call_Send ''client'' 43
         [4, 0, 69, 99, 104, 111, 3, 0, 83, 97, 121,
          9, 0, 115, 101, 114, 118, 101, 100, 45, 98, 121, 255, 3, 4, 5]],
      Continue)"
  by (simp add: serve_one_def dispatch_def invoke_handler_def send_response_def
      parse_alias_frame demo_defs wrap_server_def alias_request_def frameResponse_eq
      PutUint16_def bytes_of_string_def)

lemma empty_services: "services empty_server name = None"
  by (simp add: empty_server_def)

lemma echo_services: "services echo_server ''Echo'' = Some echo_desc"
  by (simp add: echo_server_def RegisterService_def echo_desc_def)

lemma echo_methods:
  "Methods echo_desc ''Say'' = Some \<lparr>MethodName = ''Say'', Handler = echo_handler\<rparr>"
  by (simp add: echo_desc_def)

lemma echo_impl: "ServiceImpl echo_desc = 7"
  by (simp add: echo_desc_def)

lemma echo_decode: "metadataCodec_DecodeHeaders echo_server [1, 2] = Inr [(''trace'', [''on''])]"
  by (simp add: echo_server_def RegisterService_def empty_server_def)

lemma retype_trace:
  "serve_one demo_packages retype_server echo_request =
     ([Call_ProcessRequest ([], [])
         \<lparr>ID = 42, ServiceName = ''Echo'', Method = ''Say'', Payload = Bytes [3, 4, 5]\<rparr>,
       Call_DecodeHeaders [1, 2],
       Log (ReceivedHeaders ''Echo'' ''Say''),
       Log (HeaderLine ''trace'' [''on'']),
       Call_Handler 7 ([(''trace'', [''on''])], [])],
      Panicked TypeAssertionFailed)"
  by (simp add: serve_one_def dispatch_def invoke_handler_def parse_echo_frame demo_defs
      retype_server_def)

lemma retype_facts:
  "rpcElementChain_ProcessRequest retype_server (context_Background demo_packages)
     (request_envelope echo_request ''Echo'' ''Say'' [3, 4, 5])
     = Inr \<lparr>ID = 42, ServiceName = ''Echo'', Method = ''Say'', Payload = NotBytes []\<rparr>"
  "services retype_server ''Echo'' = Some echo_desc"
  "metadataCodec_DecodeHeaders retype_server [1, 2] = Inr [(''trace'', [''on''])]"
  by (simp_all add: retype_server_def echo_server_def RegisterService_def empty_server_def
      request_envelope_def echo_request_def echo_desc_def)

lemma failing_facts:
  "rpcElementChain_ProcessRequest failing_server (context_Background demo_packages)
     (request_envelope echo_request ''Echo'' ''Say'' [3, 4, 5])
     = Inr (request_envelope echo_request ''Echo'' ''Say'' [3, 4, 5])"
  "metadataCodec_DecodeHeaders failing_server [1, 2] = Inr [(''trace'', [''on''])]"
  by (simp_all add: failing_server_def empty_server_def)

subsection \<open>Claim C2: buffers that end before their segments\<close>

text \<open>
  C2 says that a buffer whose length prefixes point past its end, or that is shorter than
  two bytes, makes the decoder return a malformed-frame error, which the loop logs before
  it serves the next request. The decoder never returns an error. On the three bytes 5,
  0, 97 (a service length of five with one byte behind it) it panics, whatever the
  capacity of the buffer, and so it does on the empty buffer. The loop then logs nothing
  and stops: no request received after that one is served.
\<close>

theorem malformed_frame_panics:
  "parseFramedRequest data extra \<noteq> Inr (sn, mn, hb, pb, Some err) \<and>
   parseFramedRequest [5, 0, 0x61] extra = Inl SliceBoundsOutOfRange \<and>
   parseFramedRequest [] extra = Inl IndexOutOfRange \<and>
   serve_loop pk s (short_request # rs) = ([], Panicked SliceBoundsOutOfRange)"
proof -
  have "parseFramedRequest data extra \<noteq> Inr (sn, mn, hb, pb, Some err)"
    using parse_returns [of data extra sn mn hb pb "Some err"] by auto
  moreover have "serve_loop pk s (short_request # rs) = ([], Panicked SliceBoundsOutOfRange)"
    by (simp add: parse_short_request serve_one_def short_request_def)
  ultimately show ?thesis
    by (simp add: parse_short_request parse_short)
qed

subsection \<open>Claim C3: the order of the stages\<close>

text \<open>
  C3 says that for every inbound request the dispatcher parses the frame, then looks up
  the service and the method, then decodes the headers into a fresh incoming context,
  then runs the request interceptors, and only then invokes the handler. The code runs
  the request interceptors first. On the echo request the calls come in the order of
  the code, which is not the order of the specification; and on a server with no
  service the interceptors are called although the lookup fails.
\<close>

theorem spec_order_counterexample:
  "stages (fst (serve_one demo_packages echo_server echo_request)) = code_stage_order \<and>
   \<not> follows_order spec_stage_order
       (stages (fst (serve_one demo_packages echo_server echo_request))) \<and>
   services empty_server ''Echo'' = None \<and>
   fst (serve_one demo_packages empty_server echo_request) =
     [Call_ProcessRequest ([], [])
        \<lparr>ID = 42, ServiceName = ''Echo'', Method = ''Say'', Payload = Bytes [3, 4, 5]\<rparr>,
      Log (UnknownService ''Echo'')]"
  by (simp add: echo_trace empty_trace stages_Cons stages_Nil code_stage_order_def
      spec_stage_order_def follows_order_def empty_services)

text \<open>
  C3, amended. For every inbound request the dispatcher executes its stages in this
  order: parse the frame, then run the request interceptors (under the background
  context, on the envelope built from the parsed frame), then look up the service and
  the method that the envelope returned by the interceptors names, then decode the
  headers into a fresh incoming context, and only after all of these invoke the handler.
  In full: the calls of an iteration are an initial segment of request interceptors,
  header decoder, handler, response interceptors, serializer, header encoder, transport.
  The request interceptors are called only on the envelope of a frame that parsed, and
  whenever a frame parses they are the first call, whatever the registry holds. The
  headers are decoded only when the interceptors returned an envelope and the registry
  holds the service and the method it names, and whenever that is so they are the second
  call. The handler is invoked only with the implementation of that service and the
  incoming context made of the decoded headers, and whenever the headers decode it is
  the next call, after the log lines of the headers.
\<close>

theorem dispatch_stage_order:
  "follows_order code_stage_order (stages (fst (serve_one pk s r))) \<and>
   (Call_ProcessRequest c rq0 \<in> set (fst (serve_one pk s r)) \<longrightarrow>
      (\<exists>data extra sn mn hb pb.
         rcv_data r = Some (data, extra) \<and>
         parseFramedRequest data extra = Inr (sn, mn, hb, pb, None) \<and>
         c = context_Background pk \<and> rq0 = request_envelope r sn mn pb)) \<and>
   (Call_DecodeHeaders hb' \<in> set (fst (serve_one pk s r)) \<longrightarrow>
      (\<exists>data extra sn mn pb rq d m.
         rcv_data r = Some (data, extra) \<and>
         parseFramedRequest data extra = Inr (sn, mn, hb', pb, None) \<and>
         rpcElementChain_ProcessRequest s (context_Background pk) (request_envelope r sn mn pb)
           = Inr rq \<and>
         services s (ServiceName rq) = Some d \<and> Methods d (Method rq) = Some m)) \<and>
   (Call_Handler i ctx \<in> set (fst (serve_one pk s r)) \<longrightarrow>
      (\<exists>data extra sn mn hb pb rq d m md.
         rcv_data r = Some (data, extra) \<and>
         parseFramedRequest data extra = Inr (sn, mn, hb, pb, None) \<and>
         rpcElementChain_ProcessRequest s (context_Background pk) (request_envelope r sn mn pb)
           = Inr rq \<and>
         services s (ServiceName rq) = Some d \<and> Methods d (Method rq) = Some m \<and>
         metadataCodec_DecodeHeaders s hb = Inr md \<and>
         i = ServiceImpl d \<and>
         ctx = metadata_NewIncomingContext pk (context_Background pk) md)) \<and>
   (rcv_err r = None \<and> rcv_data r = Some (data, extra) \<and>
    parseFramedRequest data extra = Inr (sn, mn, hb, pb, perr) \<longrightarrow>
      (\<exists>u. fst (serve_one pk s r) =
         Call_ProcessRequest (context_Background pk) (request_envelope r sn mn pb) # u)) \<and>
   (rcv_err r = None \<and> rcv_data r = Some (data, extra) \<and>
    parseFramedRequest data extra = Inr (sn, mn, hb, pb, perr) \<and>
    rpcElementChain_ProcessRequest s (context_Background pk) (request_envelope r sn mn pb)
      = Inr rq \<and>
    services s (ServiceName rq) = Some d \<and> Methods d (Method rq) = Some m \<longrightarrow>
      (\<exists>u. fst (serve_one pk s r) =
         Call_ProcessRequest (context_Background pk) (request_envelope r sn mn pb) #
         Call_DecodeHeaders hb # u)) \<and>
   (rcv_err r = None \<and> rcv_data r = Some (data, extra) \<and>
    parseFramedRequest data extra = Inr (sn, mn, hb, pb, perr) \<and>
    rpcElementChain_ProcessRequest s (context_Background pk) (request_envelope r sn mn pb)
      = Inr rq \<and>
    services s (ServiceName rq) = Some d \<and> Methods d (Method rq) = Some m \<and>
    metadataCodec_DecodeHeaders s hb = Inr md \<longrightarrow>
      (\<exists>u. fst (serve_one pk s r) =
         [Call_ProcessRequest (context_Background pk) (request_envelope r sn mn pb),
          Call_DecodeHeaders hb, Log (ReceivedHeaders (ServiceName rq) (Method rq))]
         @ map (\<lambda>(k, v). Log (HeaderLine k v)) md
         @ Call_Handler (ServiceImpl d)
             (metadata_NewIncomingContext pk (context_Background pk) md) # u))"
proof (intro conjI impI)
  show "follows_order code_stage_order (stages (fst (serve_one pk s r)))"
    by (rule serve_one_order)
next
  assume "Call_ProcessRequest c rq0 \<in> set (fst (serve_one pk s r))"
  then show "\<exists>data extra sn mn hb pb.
         rcv_data r = Some (data, extra) \<and>
         parseFramedRequest data extra = Inr (sn, mn, hb, pb, None) \<and>
         c = context_Background pk \<and> rq0 = request_envelope r sn mn pb"
    by (rule chain_call_inversion)
next
  assume "Call_DecodeHeaders hb' \<in> set (fst (serve_one pk s r))"
  then show "\<exists>data extra sn mn pb rq d m.
         rcv_data r = Some (data, extra) \<and>
         parseFramedRequest data extra = Inr (sn, mn, hb', pb, None) \<and>
         rpcElementChain_ProcessRequest s (context_Background pk) (request_envelope r sn mn pb)
           = Inr rq \<and>
         services s (ServiceName rq) = Some d \<and> Methods d (Method rq) = Some m"
    by (rule decode_call_inversion)
next
  assume "Call_Handler i ctx \<in> set (fst (serve_one pk s r))"
  then show "\<exists>data extra sn mn hb pb rq d m md.
         rcv_data r = Some (data, extra) \<and>
         parseFramedRequest data extra = Inr (sn, mn, hb, pb, None) \<and>
         rpcElementChain_ProcessRequest s (context_Background pk) (request_envelope r sn mn pb)
           = Inr rq \<and>
         services s (ServiceName rq) = Some d \<and> Methods d (Method rq) = Some m \<and>
         metadataCodec_DecodeHeaders s hb = Inr md \<and>
         i = ServiceImpl d \<and>
         ctx = metadata_NewIncomingContext pk (context_Background pk) md"
    by (rule handler_call_inversion)
next
  assume h: "rcv_err r = None \<and> rcv_data r = Some (data, extra) \<and>
    parseFramedRequest data extra = Inr (sn, mn, hb, pb, perr)"
  then have "serve_one pk s r = dispatch pk s r sn mn hb pb"
    by (simp add: serve_one_dispatch)
  then show "\<exists>u. fst (serve_one pk s r) =
         Call_ProcessRequest (context_Background pk) (request_envelope r sn mn pb) # u"
    using dispatch_intercepts [of pk s r sn mn hb pb] by simp
next
  assume h: "rcv_err r = None \<and> rcv_data r = Some (data, extra) \<and>
    parseFramedRequest data extra = Inr (sn, mn, hb, pb, perr) \<and>
    rpcElementChain_ProcessRequest s (context_Background pk) (request_envelope r sn mn pb)
      = Inr rq \<and>
    services s (ServiceName rq) = Some d \<and> Methods d (Method rq) = Some m"
  then have "serve_one pk s r = dispatch pk s r sn mn hb pb"
    by (simp add: serve_one_dispatch)
  then show "\<exists>u. fst (serve_one pk s r) =
         Call_ProcessRequest (context_Background pk) (request_envelope r sn mn pb) #
         Call_DecodeHeaders hb # u"
    using h dispatch_decodes [of s pk r sn mn pb rq d m hb] by simp
next
  assume h: "rcv_err r = None \<and> rcv_data r = Some (data, extra) \<and>
    parseFramedRequest data extra = Inr (sn, mn, hb, pb, perr) \<and>
    rpcElementChain_ProcessRequest s (context_Background pk) (request_envelope r sn mn pb)
      = Inr rq \<and>
    services s (ServiceName rq) = Some d \<and> Methods d (Method rq) = Some m \<and>
    metadataCodec_DecodeHeaders s hb = Inr md"
  then have "serve_one pk s r = dispatch pk s r sn mn hb pb"
    by (simp add: serve_one_dispatch)
  then show "\<exists>u. fst (serve_one pk s r) =
         [Call_ProcessRequest (context_Background pk) (request_envelope r sn mn pb),
          Call_DecodeHeaders hb, Log (ReceivedHeaders (ServiceName rq) (Method rq))]
         @ map (\<lambda>(k, v). Log (HeaderLine k v)) md
         @ Call_Handler (ServiceImpl d)
             (metadata_NewIncomingContext pk (context_Background pk) md) # u"
    using h dispatch_invokes [of s pk r sn mn pb rq d m hb md] by auto
qed

theorem dispatch_stage_order_witness:
  "rcv_err echo_request = None \<and> rcv_data echo_request = Some (echo_frame, []) \<and>
   parseFramedRequest echo_frame [] = Inr (''Echo'', ''Say'', [1, 2], [3, 4, 5], None) \<and>
   rpcElementChain_ProcessRequest echo_server (context_Background demo_packages)
     (request_envelope echo_request ''Echo'' ''Say'' [3, 4, 5])
     = Inr (request_envelope echo_request ''Echo'' ''Say'' [3, 4, 5]) \<and>
   services echo_server ''Echo'' = Some echo_desc \<and>
   Methods echo_desc ''Say'' = Some \<lparr>MethodName = ''Say'', Handler = echo_handler\<rparr> \<and>
   metadataCodec_DecodeHeaders echo_server [1, 2] = Inr [(''trace'', [''on''])] \<and>
   ServiceImpl echo_desc = 7 \<and>
   Call_ProcessRequest ([], [])
     \<lparr>ID = 42, ServiceName = ''Echo'', Method = ''Say'', Payload = Bytes [3, 4, 5]\<rparr>
     \<in> set (fst (serve_one demo_packages echo_server echo_request)) \<and>
   Call_DecodeHeaders [1, 2] \<in> set (fst (serve_one demo_packages echo_server echo_request)) \<and>
   Call_Handler 7 ([(''trace'', [''on''])], [])
     \<in> set (fst (serve_one demo_packages echo_server echo_request)) \<and>
   follows_order code_stage_order
     (stages (fst (serve_one demo_packages echo_server echo_request))) \<and>
   take 5 (fst (serve_one demo_packages echo_server echo_request)) =
     [Call_ProcessRequest ([], [])
        \<lparr>ID = 42, ServiceName = ''Echo'', Method = ''Say'', Payload = Bytes [3, 4, 5]\<rparr>,
      Call_DecodeHeaders [1, 2],
      Log (ReceivedHeaders ''Echo'' ''Say''),
      Log (HeaderLine ''trace'' [''on'']),
      Call_Handler 7 ([(''trace'', [''on''])], [])]"
proof -
  let ?rq = "request_envelope echo_request ''Echo'' ''Say'' [3, 4, 5] :: byte list RPCRequest"
  let ?m = "\<lparr>MethodName = ''Say'', Handler = echo_handler\<rparr>"
  let ?md = "[(''trace'', [''on''])] :: MD"
  let ?t = "fst (serve_one demo_packages echo_server echo_request)"
  have h1: "rcv_err echo_request = None" and h2: "rcv_data echo_request = Some (echo_frame, [])"
    by (simp_all add: echo_request_def)
  have h3: "parseFramedRequest echo_frame [] = Inr (''Echo'', ''Say'', [1, 2], [3, 4, 5], None)"
    by (rule parse_echo_frame)
  have h4: "rpcElementChain_ProcessRequest echo_server (context_Background demo_packages) ?rq
      = Inr ?rq"
    by (simp add: echo_server_def RegisterService_def empty_server_def)
  have h5: "services echo_server (ServiceName ?rq) = Some echo_desc"
    by (simp add: echo_services request_envelope_def)
  have h6: "Methods echo_desc (Method ?rq) = Some ?m"
    by (simp add: echo_methods request_envelope_def)
  have h7: "metadataCodec_DecodeHeaders echo_server [1, 2] = Inr ?md"
    by (rule echo_decode)
  note order = dispatch_stage_order [where pk = demo_packages and s = echo_server
      and r = echo_request and c = "([], [])"
      and ?rq0.0 = "\<lparr>ID = 42, ServiceName = ''Echo'', Method = ''Say'', Payload = Bytes [3, 4, 5]\<rparr>"
      and hb' = "[1, 2]" and i = 7 and ctx = "(?md, [])"
      and data = echo_frame and extra = "[]" and sn = "''Echo''" and mn = "''Say''"
      and hb = "[1, 2]" and pb = "[3, 4, 5]" and perr = None and rq = ?rq
      and d = echo_desc and m = ?m and md = ?md]
  from order have fo: "follows_order code_stage_order (stages ?t)"
    by (rule conjunct1)
  from h1 h2 h3 h4 h5 h6 h7
  have hyp: "rcv_err echo_request = None \<and> rcv_data echo_request = Some (echo_frame, []) \<and>
      parseFramedRequest echo_frame [] = Inr (''Echo'', ''Say'', [1, 2], [3, 4, 5], None) \<and>
      rpcElementChain_ProcessRequest echo_server (context_Background demo_packages) ?rq
        = Inr ?rq \<and>
      services echo_server (ServiceName ?rq) = Some echo_desc \<and>
      Methods echo_desc (Method ?rq) = Some ?m \<and>
      metadataCodec_DecodeHeaders echo_server [1, 2] = Inr ?md"
    by (intro conjI)
  from order [THEN conjunct2, THEN conjunct2, THEN conjunct2, THEN conjunct2, THEN conjunct2,
      THEN conjunct2, THEN mp, OF hyp]
  obtain u where u: "?t =
      [Call_ProcessRequest (context_Background demo_packages) ?rq,
       Call_DecodeHeaders [1, 2], Log (ReceivedHeaders (ServiceName ?rq) (Method ?rq))]
      @ map (\<lambda>(k, v). Log (HeaderLine k v)) ?md
      @ Call_Handler (ServiceImpl echo_desc)
          (metadata_NewIncomingContext demo_packages (context_Background demo_packages) ?md) # u"
    by blast
  have t5: "take 5 ?t =
     [Call_ProcessRequest ([], [])
        \<lparr>ID = 42, ServiceName = ''Echo'', Method = ''Say'', Payload = Bytes [3, 4, 5]\<rparr>,
      Call_DecodeHeaders [1, 2],
      Log (ReceivedHeaders ''Echo'' ''Say''),
      Log (HeaderLine ''trace'' [''on'']),
      Call_Handler 7 ([(''trace'', [''on''])], [])]"
    by (subst u) (simp add: echo_impl request_envelope_def echo_request_def demo_packages_def)
  have "Call_ProcessRequest ([], [])
        \<lparr>ID = 42, ServiceName = ''Echo'', Method = ''Say'', Payload = Bytes [3, 4, 5]\<rparr>
        \<in> set (take 5 ?t)"
      "Call_DecodeHeaders [1, 2] \<in> set (take 5 ?t)"
      "Call_Handler 7 (?md, []) \<in> set (take 5 ?t)"
    by (simp_all add: t5)
  then have mem: "Call_ProcessRequest ([], [])
        \<lparr>ID = 42, ServiceName = ''Echo'', Method = ''Say'', Payload = Bytes [3, 4, 5]\<rparr>
        \<in> set ?t"
      "Call_DecodeHeaders [1, 2] \<in> set ?t"
      "Call_Handler 7 (?md, []) \<in> set ?t"
    by (blast dest: in_set_takeD)+
  from h1 h2 h3 h4 fo t5 mem show ?thesis
    by (simp add: echo_services echo_methods echo_decode echo_impl)
qed

subsection \<open>Claim C6: a handler that returns an error\<close>

text \<open>
  C6. For every request whose handler returns a non-nil error, the server logs the error
  and sends nothing: the response interceptors are not run, no response is serialized
  and no packet is transmitted. The iteration ends with the log line of the handler
  error, its calls are those up to the handler, and the loop goes on.
\<close>

theorem handler_error_dropped:
  assumes "rcv_err r = None" "rcv_data r = Some (data, extra)"
    "parseFramedRequest data extra = Inr (sn, mn, hb, pb, perr)"
    "rpcElementChain_ProcessRequest s (context_Background pk) (request_envelope r sn mn pb)
       = Inr rq"
    "services s (ServiceName rq) = Some d" "Methods d (Method rq) = Some m"
    "metadataCodec_DecodeHeaders s hb = Inr md"
    "Handler m (ServiceImpl d) (metadata_NewIncomingContext pk (context_Background pk) md)
       (decoder_of s rq) = Inr (resp, ctx', Some err)"
  shows "serve_one pk s r =
     ([Call_ProcessRequest (context_Background pk) (request_envelope r sn mn pb),
       Call_DecodeHeaders hb, Log (ReceivedHeaders (ServiceName rq) (Method rq))]
      @ map (\<lambda>(k, v). Log (HeaderLine k v)) md
      @ [Call_Handler (ServiceImpl d)
           (metadata_NewIncomingContext pk (context_Background pk) md),
         Log (HandlerError err)], Continue) \<and>
     stages (fst (serve_one pk s r)) = [SProcessRequest, SDecodeHeaders, SHandler]"
proof -
  have "serve_one pk s r =
     ([Call_ProcessRequest (context_Background pk) (request_envelope r sn mn pb),
       Call_DecodeHeaders hb, Log (ReceivedHeaders (ServiceName rq) (Method rq))]
      @ map (\<lambda>(k, v). Log (HeaderLine k v)) md
      @ [Call_Handler (ServiceImpl d)
           (metadata_NewIncomingContext pk (context_Background pk) md),
         Log (HandlerError err)], Continue)"
    using assms(8)
    by (simp add: serve_one_dispatch [OF assms(1-3)] dispatch_to_handler [OF assms(4-7)]
        invoke_handler_def)
  then show ?thesis
    by (simp add: stages_Cons stages_Nil stages_append stages_header_lines)
qed

lemma failing_services:
  "services failing_server ''Echo'' =
     Some \<lparr>ServiceImpl = 7, ServiceName_of = ''Echo'',
            Methods = [''Say'' \<mapsto> \<lparr>MethodName = ''Say'', Handler = failing_handler\<rparr>]\<rparr>"
  by (simp add: failing_server_def)

theorem handler_error_dropped_witness:
  "rcv_err echo_request = None \<and> rcv_data echo_request = Some (echo_frame, []) \<and>
   parseFramedRequest echo_frame [] = Inr (''Echo'', ''Say'', [1, 2], [3, 4, 5], None) \<and>
   failing_handler 7 ([(''trace'', [''on''])], [])
     (decoder_of failing_server (request_envelope echo_request ''Echo'' ''Say'' [3, 4, 5]))
     = Inr ([], ([(''trace'', [''on''])], []), Some (GoError ''boom'')) \<and>
   serve_one demo_packages failing_server echo_request =
     ([Call_ProcessRequest ([], [])
         \<lparr>ID = 42, ServiceName = ''Echo'', Method = ''Say'', Payload = Bytes [3, 4, 5]\<rparr>,
       Call_DecodeHeaders [1, 2],
       Log (ReceivedHeaders ''Echo'' ''Say''),
       Log (HeaderLine ''trace'' [''on'']),
       Call_Handler 7 ([(''trace'', [''on''])], []),
       Log (HandlerError (GoError ''boom''))],
      Continue) \<and>
   stages (fst (serve_one demo_packages failing_server echo_request)) =
     [SProcessRequest, SDecodeHeaders, SHandler]"
proof -
  let ?rq = "request_envelope echo_request ''Echo'' ''Say'' [3, 4, 5] :: byte list RPCRequest"
  let ?d = "\<lparr>ServiceImpl = 7 :: nat, ServiceName_of = ''Echo'',
              Methods = [''Say'' \<mapsto> \<lparr>MethodName = ''Say'', Handler = failing_handler\<rparr>]\<rparr>"
  let ?m = "\<lparr>MethodName = ''Say'', Handler = failing_handler\<rparr>"
  have h1: "rcv_err echo_request = None" and h2: "rcv_data echo_request = Some (echo_frame, [])"
    by (simp_all add: echo_request_def)
  have h3: "parseFramedRequest echo_frame [] = Inr (''Echo'', ''Say'', [1, 2], [3, 4, 5], None)"
    by (rule parse_echo_frame)
  have h4: "rpcElementChain_ProcessRequest failing_server (context_Background demo_packages) ?rq
      = Inr ?rq"
    by (simp add: failing_server_def empty_server_def)
  have h5: "services failing_server (ServiceName ?rq) = Some ?d"
    by (simp add: failing_services request_envelope_def)
  have h6: "Methods ?d (Method ?rq) = Some ?m"
    by (simp add: request_envelope_def)
  have h7: "metadataCodec_DecodeHeaders failing_server [1, 2] = Inr [(''trace'', [''on''])]"
    by (simp add: failing_server_def empty_server_def)
  have h8: "Handler ?m (ServiceImpl ?d)
      (metadata_NewIncomingContext demo_packages (context_Background demo_packages)
         [(''trace'', [''on''])])
      (decoder_of failing_server ?rq)
      = Inr ([], ([(''trace'', [''on''])], []), Some (GoError ''boom''))"
    by (simp add: failing_handler_def demo_packages_def)
  from handler_error_dropped [OF h1 h2 h3 h4 h5 h6 h7 h8] h1 h2 h3
  show ?thesis
    by (simp add: failing_trace failing_handler_def stages_Cons stages_Nil)
qed

subsection \<open>Claim C5: unknown service or method\<close>




subsection \<open>Claim C4: the response\<close>

text \<open>
  C4 says that for every successfully handled request the server serializes the result
  of the handler and frames the response with the service and method names of the
  original request. The server serializes the result that the response interceptors
  return, and frames with the names in the envelope that the request interceptors
  returned. Here the request names the service by the alias \<^verbatim>\<open>echo\<close>, which an
  interceptor maps to \<^verbatim>\<open>Echo\<close>, the handler returns the bytes 3, 4, 5, and a
  response interceptor puts 255 in front: the result of the handler is not serialized,
  and the frame of the original names around the result of the handler is not sent.
\<close>

theorem response_counterexample:
  "parseFramedRequest alias_frame [] = Inr (''echo'', ''Say'', [1, 2], [3, 4, 5], None) \<and>
   serve_one demo_packages wrap_server alias_request =
     ([Call_ProcessRequest ([], [])
         \<lparr>ID = 43, ServiceName = ''echo'', Method = ''Say'', Payload = Bytes [3, 4, 5]\<rparr>,
       Call_DecodeHeaders [1, 2],
       Log (ReceivedHeaders ''Echo'' ''Say''),
       Log (HeaderLine ''trace'' [''on'']),
       Call_Handler 7 ([(''trace'', [''on''])], []),
       Call_ProcessResponse ([(''trace'', [''on''])], [(''served-by'', [''echo''])])
         \<lparr>Result = [3, 4, 5], Error = None\<rparr>,
       Call_Marshal [255, 3, 4, 5],
       Call_EncodeHeaders [(''served-by'', [''echo''])],
       Call_Send ''client'' 43
         [4, 0, 69, 99, 104, 111, 3, 0, 83, 97, 121,
          9, 0, 115, 101, 114, 118, 101, 100, 45, 98, 121, 255, 3, 4, 5]],
      Continue) \<and>
   Call_Marshal [3, 4, 5] \<notin> set (fst (serve_one demo_packages wrap_server alias_request)) \<and>
   frameResponse ''echo'' ''Say'' [115, 101, 114, 118, 101, 100, 45, 98, 121] [3, 4, 5] =
     Inr [4, 0, 101, 99, 104, 111, 3, 0, 83, 97, 121,
          9, 0, 115, 101, 114, 118, 101, 100, 45, 98, 121, 3, 4, 5] \<and>
   Call_Send ''client'' 43
     [4, 0, 101, 99, 104, 111, 3, 0, 83, 97, 121,
      9, 0, 115, 101, 114, 118, 101, 100, 45, 98, 121, 3, 4, 5]
     \<notin> set (fst (serve_one demo_packages wrap_server alias_request))"
  by (simp add: wrap_trace parse_alias_frame)
     (simp add: frameResponse_eq PutUint16_def bytes_of_string_def)

text \<open>
  C4, amended. For every successfully handled request (the handler returns no error, and
  the response interceptors, the serializer and the header encoder accept the response)
  the server serializes the result returned by the response interceptors (which are
  given the result of the handler), encodes the response headers from the outgoing
  metadata of the context returned by the handler, frames the response with the service
  and method names of the envelope returned by the request interceptors, and sends it
  with the same RPC id to the address the request came from. These are the last calls of
  the iteration, in this order.
\<close>

theorem response_sent:
  assumes "rcv_err r = None" "rcv_data r = Some (data, extra)"
    "parseFramedRequest data extra = Inr (sn, mn, hb, pb, perr)"
    "rpcElementChain_ProcessRequest s (context_Background pk) (request_envelope r sn mn pb)
       = Inr rq"
    "services s (ServiceName rq) = Some d" "Methods d (Method rq) = Some m"
    "metadataCodec_DecodeHeaders s hb = Inr md"
    "Handler m (ServiceImpl d) (metadata_NewIncomingContext pk (context_Background pk) md)
       (decoder_of s rq) = Inr (resp, ctx', None)"
    "rpcElementChain_ProcessResponse s ctx' \<lparr>Result = resp, Error = None\<rparr> = Inr rr"
    "serializer_Marshal s (Result rr) = Inr respPayload"
    "metadataCodec_EncodeHeaders s (metadata_FromOutgoingContext pk ctx') = Inr respHeaders"
  shows "\<exists>framed.
     frameResponse (ServiceName rq) (Method rq) respHeaders respPayload = Inr framed \<and>
     serve_one pk s r =
       ([Call_ProcessRequest (context_Background pk) (request_envelope r sn mn pb),
         Call_DecodeHeaders hb, Log (ReceivedHeaders (ServiceName rq) (Method rq))]
        @ map (\<lambda>(k, v). Log (HeaderLine k v)) md
        @ [Call_Handler (ServiceImpl d)
             (metadata_NewIncomingContext pk (context_Background pk) md),
           Call_ProcessResponse ctx' \<lparr>Result = resp, Error = None\<rparr>,
           Call_Marshal (Result rr),
           Call_EncodeHeaders (metadata_FromOutgoingContext pk ctx'),
           Call_Send (UDPAddr_String pk (rcv_addr r)) (rcv_rpcID r) framed]
        @ (case transport_Send s (UDPAddr_String pk (rcv_addr r)) (rcv_rpcID r) framed of
             Some err \<Rightarrow> [Log (SendError err)]
           | None \<Rightarrow> []),
        Continue)"
  using assms(8-11)
  by (simp add: serve_one_dispatch [OF assms(1-3)] dispatch_to_handler [OF assms(4-7)]
      invoke_handler_def send_response_def frameResponse_eq split: option.splits)

theorem response_sent_witness:
  "rcv_err echo_request = None \<and> rcv_data echo_request = Some (echo_frame, []) \<and>
   parseFramedRequest echo_frame [] = Inr (''Echo'', ''Say'', [1, 2], [3, 4, 5], None) \<and>
   services echo_server ''Echo'' = Some echo_desc \<and>
   echo_handler 7 ([(''trace'', [''on''])], [])
     (decoder_of echo_server (request_envelope echo_request ''Echo'' ''Say'' [3, 4, 5]))
     = Inr ([3, 4, 5], ([(''trace'', [''on''])], [(''served-by'', [''echo''])]), None) \<and>
   frameResponse ''Echo'' ''Say'' [115, 101, 114, 118, 101, 100, 45, 98, 121] [3, 4, 5] =
     Inr [4, 0, 69, 99, 104, 111, 3, 0, 83, 97, 121,
          9, 0, 115, 101, 114, 118, 101, 100, 45, 98, 121, 3, 4, 5] \<and>
   serve_one demo_packages echo_server echo_request =
     ([Call_ProcessRequest ([], [])
         \<lparr>ID = 42, ServiceName = ''Echo'', Method = ''Say'', Payload = Bytes [3, 4, 5]\<rparr>,
       Call_DecodeHeaders [1, 2],
       Log (ReceivedHeaders ''Echo'' ''Say''),
       Log (HeaderLine ''trace'' [''on'']),
       Call_Handler 7 ([(''trace'', [''on''])], []),
       Call_ProcessResponse ([(''trace'', [''on''])], [(''served-by'', [''echo''])])
         \<lparr>Result = [3, 4, 5], Error = None\<rparr>,
       Call_Marshal [3, 4, 5],
       Call_EncodeHeaders [(''served-by'', [''echo''])],
       Call_Send ''client'' 42
         [4, 0, 69, 99, 104, 111, 3, 0, 83, 97, 121,
          9, 0, 115, 101, 114, 118, 101, 100, 45, 98, 121, 3, 4, 5]],
      Continue)"
proof -
  let ?rq = "request_envelope echo_request ''Echo'' ''Say'' [3, 4, 5] :: byte list RPCRequest"
  let ?m = "\<lparr>MethodName = ''Say'', Handler = echo_handler\<rparr>"
  let ?in = "[(''trace'', [''on''])] :: MD"
  let ?ctx' = "(?in, [(''served-by'', [''echo''])]) :: demo_ctx"
  have h1: "rcv_err echo_request = None" and h2: "rcv_data echo_request = Some (echo_frame, [])"
    by (simp_all add: echo_request_def)
  have h3: "parseFramedRequest echo_frame [] = Inr (''Echo'', ''Say'', [1, 2], [3, 4, 5], None)"
    by (rule parse_echo_frame)
  have h4: "rpcElementChain_ProcessRequest echo_server (context_Background demo_packages) ?rq
      = Inr ?rq"
    by (simp add: echo_server_def RegisterService_def empty_server_def)
  have h5: "services echo_server (ServiceName ?rq) = Some echo_desc"
    by (simp add: echo_services request_envelope_def)
  have h6: "Methods echo_desc (Method ?rq) = Some ?m"
    by (simp add: echo_methods request_envelope_def)
  have h7: "metadataCodec_DecodeHeaders echo_server [1, 2] = Inr ?in"
    by (rule echo_decode)
  have h8: "Handler ?m (ServiceImpl echo_desc)
      (metadata_NewIncomingContext demo_packages (context_Background demo_packages) ?in)
      (decoder_of echo_server ?rq) = Inr ([3, 4, 5], ?ctx', None)"
    by (simp add: demo_defs)
  have h9: "rpcElementChain_ProcessResponse echo_server ?ctx' \<lparr>Result = [3, 4, 5], Error = None\<rparr>
      = Inr \<lparr>Result = [3, 4, 5], Error = None\<rparr>"
    by (simp add: echo_server_def RegisterService_def empty_server_def)
  have h10: "serializer_Marshal echo_server (Result \<lparr>Result = [3, 4, 5 :: byte], Error = None\<rparr>)
      = Inr [3, 4, 5]"
    by (simp add: echo_server_def RegisterService_def empty_server_def)
  have h11: "metadataCodec_EncodeHeaders echo_server (metadata_FromOutgoingContext demo_packages ?ctx')
      = Inr [115, 101, 114, 118, 101, 100, 45, 98, 121]"
    by (simp add: echo_server_def RegisterService_def empty_server_def demo_packages_def
        bytes_of_string_def)
  have h8': "echo_handler 7 (?in, []) (decoder_of echo_server ?rq) = Inr ([3, 4, 5], ?ctx', None)"
    by (simp add: demo_defs)
  from response_sent [OF h1 h2 h3 h4 h5 h6 h7 h8 h9 h10 h11] h1 h2 h3 h8'
  show ?thesis
    by (simp add: echo_trace echo_services)
       (simp add: frameResponse_eq PutUint16_def bytes_of_string_def)
qed

subsection \<open>Claim C8: the second argument of RegisterService\<close>

lemma serve_loop_events:
  "e \<in> set (fst (serve_loop pk s rs)) \<Longrightarrow> \<exists>r \<in> set rs. e \<in> set (fst (serve_one pk s r))"
proof (induction rs)
  case Nil
  then show ?case by simp
next
  case (Cons r rs)
  obtain t out where one: "serve_one pk s r = (t, out)"
    by (cases "serve_one pk s r") auto
  show ?case
  proof (cases out)
    case (Panicked p)
    with one Cons.prems show ?thesis by auto
  next
    case Continue
    obtain t' out' where rest: "serve_loop pk s rs = (t', out')"
      by (cases "serve_loop pk s rs") auto
    from Cons.prems one Continue rest have "e \<in> set t \<or> e \<in> set t'"
      by auto
    then show ?thesis
    proof
      assume "e \<in> set t"
      with one show ?thesis by auto
    next
      assume "e \<in> set t'"
      with rest Cons.IH show ?thesis by auto
    qed
  qed
qed

lemma start_handler_inversion:
  assumes "Call_Handler i ctx \<in> set (fst (Start pk s rs))"
  shows "\<exists>r data extra sn mn hb pb rq d m md.
      r \<in> set rs \<and> rcv_data r = Some (data, extra) \<and>
      parseFramedRequest data extra = Inr (sn, mn, hb, pb, None) \<and>
      rpcElementChain_ProcessRequest s (context_Background pk) (request_envelope r sn mn pb)
        = Inr rq \<and>
      services s (ServiceName rq) = Some d \<and> Methods d (Method rq) = Some m \<and>
      metadataCodec_DecodeHeaders s hb = Inr md \<and>
      i = ServiceImpl d \<and> ctx = metadata_NewIncomingContext pk (context_Background pk) md"
proof -
  from assms have "Call_Handler i ctx \<in> set (fst (serve_loop pk s rs))"
    by (auto simp add: Start_def split: prod.splits)
  then obtain r where r: "r \<in> set rs" "Call_Handler i ctx \<in> set (fst (serve_one pk s r))"
    using serve_loop_events by blast
  from handler_call_inversion [OF r(2)] r(1) show ?thesis
    by blast
qed

text \<open>
  C8. The \<^verbatim>\<open>impl\<close> argument of \<^verbatim>\<open>RegisterService\<close> has no effect: for any two
  values of it, of any types, the registration gives the same server and the same log
  line, hence the same behaviour of \<^verbatim>\<open>Start\<close> on every sequence of received
  requests, and it stores the descriptor under its name. The handler is always invoked
  with the \<^verbatim>\<open>ServiceImpl\<close> field of the descriptor that the registry holds for the
  request: every invocation in a run of \<^verbatim>\<open>Start\<close> passes the implementation of
  the descriptor found under the service name of the envelope that the request
  interceptors returned for one of the requests; and whenever a request reaches the
  handler, the handler is called with that implementation, and what it returns for it
  decides how the iteration goes on: with a panic, with the log line of its error, or
  with the call of the response interceptors on its result.
\<close>

theorem register_impl_ignored:
  "RegisterService s desc impl1 = RegisterService s desc impl2 \<and>
   Start pk (fst (RegisterService s desc impl1)) rs =
     Start pk (fst (RegisterService s desc impl2)) rs \<and>
   services (fst (RegisterService s desc impl1)) (ServiceName_of desc) = Some desc \<and>
   (Call_Handler i ctx \<in> set (fst (Start pk s rs)) \<longrightarrow>
      (\<exists>r data extra sn mn hb pb rq d m md.
         r \<in> set rs \<and> rcv_data r = Some (data, extra) \<and>
         parseFramedRequest data extra = Inr (sn, mn, hb, pb, None) \<and>
         rpcElementChain_ProcessRequest s (context_Background pk) (request_envelope r sn mn pb)
           = Inr rq \<and>
         services s (ServiceName rq) = Some d \<and> Methods d (Method rq) = Some m \<and>
         metadataCodec_DecodeHeaders s hb = Inr md \<and>
         i = ServiceImpl d \<and>
         ctx = metadata_NewIncomingContext pk (context_Background pk) md)) \<and>
   (rcv_err r = None \<and> rcv_data r = Some (data, extra) \<and>
    parseFramedRequest data extra = Inr (sn, mn, hb, pb, perr) \<and>
    rpcElementChain_ProcessRequest s (context_Background pk) (request_envelope r sn mn pb)
      = Inr rq \<and>
    services s (ServiceName rq) = Some d \<and> Methods d (Method rq) = Some m \<and>
    metadataCodec_DecodeHeaders s hb = Inr md \<longrightarrow>
      (\<exists>u. fst (serve_one pk s r) =
         [Call_ProcessRequest (context_Background pk) (request_envelope r sn mn pb),
          Call_DecodeHeaders hb, Log (ReceivedHeaders (ServiceName rq) (Method rq))]
         @ map (\<lambda>(k, v). Log (HeaderLine k v)) md
         @ Call_Handler (ServiceImpl d)
             (metadata_NewIncomingContext pk (context_Background pk) md) # u) \<and>
      (\<forall>p. Handler m (ServiceImpl d)
              (metadata_NewIncomingContext pk (context_Background pk) md) (decoder_of s rq)
              = Inl p \<longrightarrow>
         serve_one pk s r =
           ([Call_ProcessRequest (context_Background pk) (request_envelope r sn mn pb),
             Call_DecodeHeaders hb, Log (ReceivedHeaders (ServiceName rq) (Method rq))]
            @ map (\<lambda>(k, v). Log (HeaderLine k v)) md
            @ [Call_Handler (ServiceImpl d)
                 (metadata_NewIncomingContext pk (context_Background pk) md)],
            Panicked p)) \<and>
      (\<forall>resp ctx' err.
         Handler m (ServiceImpl d)
           (metadata_NewIncomingContext pk (context_Background pk) md) (decoder_of s rq)
           = Inr (resp, ctx', Some err) \<longrightarrow>
         serve_one pk s r =
           ([Call_ProcessRequest (context_Background pk) (request_envelope r sn mn pb),
             Call_DecodeHeaders hb, Log (ReceivedHeaders (ServiceName rq) (Method rq))]
            @ map (\<lambda>(k, v). Log (HeaderLine k v)) md
            @ [Call_Handler (ServiceImpl d)
                 (metadata_NewIncomingContext pk (context_Background pk) md),
               Log (HandlerError err)],
            Continue)) \<and>
      (\<forall>resp ctx'.
         Handler m (ServiceImpl d)
           (metadata_NewIncomingContext pk (context_Background pk) md) (decoder_of s rq)
           = Inr (resp, ctx', None) \<longrightarrow>
         (\<exists>u. fst (serve_one pk s r) =
           [Call_ProcessRequest (context_Background pk) (request_envelope r sn mn pb),
            Call_DecodeHeaders hb, Log (ReceivedHeaders (ServiceName rq) (Method rq))]
           @ map (\<lambda>(k, v). Log (HeaderLine k v)) md
           @ [Call_Handler (ServiceImpl d)
                (metadata_NewIncomingContext pk (context_Background pk) md),
              Call_ProcessResponse ctx' \<lparr>Result = resp, Error = None\<rparr>] @ u)))"
proof -
  have a: "RegisterService s desc impl1 = RegisterService s desc impl2"
    by (simp add: RegisterService_def)
  have b: "Start pk (fst (RegisterService s desc impl1)) rs =
      Start pk (fst (RegisterService s desc impl2)) rs"
    by (simp add: RegisterService_def)
  have c: "services (fst (RegisterService s desc impl1)) (ServiceName_of desc) = Some desc"
    by (simp add: RegisterService_def)
  have d: "Call_Handler i ctx \<in> set (fst (Start pk s rs)) \<longrightarrow>
      (\<exists>r data extra sn mn hb pb rq d m md.
         r \<in> set rs \<and> rcv_data r = Some (data, extra) \<and>
         parseFramedRequest data extra = Inr (sn, mn, hb, pb, None) \<and>
         rpcElementChain_ProcessRequest s (context_Background pk) (request_envelope r sn mn pb)
           = Inr rq \<and>
         services s (ServiceName rq) = Some d \<and> Methods d (Method rq) = Some m \<and>
         metadataCodec_DecodeHeaders s hb = Inr md \<and>
         i = ServiceImpl d \<and>
         ctx = metadata_NewIncomingContext pk (context_Background pk) md)"
    using start_handler_inversion [of i ctx pk s rs] by blast
  {
    assume h: "rcv_err r = None \<and> rcv_data r = Some (data, extra) \<and>
      parseFramedRequest data extra = Inr (sn, mn, hb, pb, perr) \<and>
      rpcElementChain_ProcessRequest s (context_Background pk) (request_envelope r sn mn pb)
        = Inr rq \<and>
      services s (ServiceName rq) = Some d \<and> Methods d (Method rq) = Some m \<and>
      metadataCodec_DecodeHeaders s hb = Inr md"
    then have disp: "serve_one pk s r = dispatch pk s r sn mn hb pb"
      by (simp add: serve_one_dispatch)
    from h have chain: "rpcElementChain_ProcessRequest s (context_Background pk)
        (request_envelope r sn mn pb) = Inr rq"
      and svc: "services s (ServiceName rq) = Some d"
      and meth: "Methods d (Method rq) = Some m"
      and dec: "metadataCodec_DecodeHeaders s hb = Inr md"
      by simp_all
    have "\<exists>u. fst (serve_one pk s r) =
         [Call_ProcessRequest (context_Background pk) (request_envelope r sn mn pb),
          Call_DecodeHeaders hb, Log (ReceivedHeaders (ServiceName rq) (Method rq))]
         @ map (\<lambda>(k, v). Log (HeaderLine k v)) md
         @ Call_Handler (ServiceImpl d)
             (metadata_NewIncomingContext pk (context_Background pk) md) # u"
      using dispatch_invokes [OF chain svc meth dec] unfolding disp by blast
    note this dispatch_handler_result [OF chain svc meth dec, folded disp]
  }
  with a b c d show ?thesis
    by blast
qed

theorem register_impl_ignored_witness:
  "RegisterService empty_server echo_desc (99 :: nat) = RegisterService empty_server echo_desc True \<and>
   echo_server = fst (RegisterService empty_server echo_desc True) \<and>
   services echo_server ''Echo'' = Some echo_desc \<and> ServiceImpl echo_desc = 7 \<and>
   Call_Handler 7 ([(''trace'', [''on''])], [])
     \<in> set (fst (Start demo_packages echo_server [echo_request])) \<and>
   rcv_err echo_request = None \<and> rcv_data echo_request = Some (echo_frame, []) \<and>
   parseFramedRequest echo_frame [] = Inr (''Echo'', ''Say'', [1, 2], [3, 4, 5], None) \<and>
   echo_handler 7 ([(''trace'', [''on''])], [])
     (decoder_of echo_server (request_envelope echo_request ''Echo'' ''Say'' [3, 4, 5]))
     = Inr ([3, 4, 5], ([(''trace'', [''on''])], [(''served-by'', [''echo''])]), None) \<and>
   take 6 (fst (serve_one demo_packages echo_server echo_request)) =
     [Call_ProcessRequest ([], [])
        \<lparr>ID = 42, ServiceName = ''Echo'', Method = ''Say'', Payload = Bytes [3, 4, 5]\<rparr>,
      Call_DecodeHeaders [1, 2],
      Log (ReceivedHeaders ''Echo'' ''Say''),
      Log (HeaderLine ''trace'' [''on'']),
      Call_Handler 7 ([(''trace'', [''on''])], []),
      Call_ProcessResponse ([(''trace'', [''on''])], [(''served-by'', [''echo''])])
        \<lparr>Result = [3, 4, 5], Error = None\<rparr>] \<and>
   failing_handler 7 ([(''trace'', [''on''])], [])
     (decoder_of failing_server (request_envelope echo_request ''Echo'' ''Say'' [3, 4, 5]))
     = Inr ([], ([(''trace'', [''on''])], []), Some (GoError ''boom'')) \<and>
   serve_one demo_packages failing_server echo_request =
     ([Call_ProcessRequest ([], [])
         \<lparr>ID = 42, ServiceName = ''Echo'', Method = ''Say'', Payload = Bytes [3, 4, 5]\<rparr>,
       Call_DecodeHeaders [1, 2],
       Log (ReceivedHeaders ''Echo'' ''Say''),
       Log (HeaderLine ''trace'' [''on'']),
       Call_Handler 7 ([(''trace'', [''on''])], []),
       Log (HandlerError (GoError ''boom''))],
      Continue) \<and>
   echo_handler 7 ([(''trace'', [''on''])], [])
     (decoder_of retype_server
        \<lparr>ID = 42, ServiceName = ''Echo'', Method = ''Say'', Payload = NotBytes []\<rparr>)
     = Inl TypeAssertionFailed \<and>
   serve_one demo_packages retype_server echo_request =
     ([Call_ProcessRequest ([], [])
         \<lparr>ID = 42, ServiceName = ''Echo'', Method = ''Say'', Payload = Bytes [3, 4, 5]\<rparr>,
       Call_DecodeHeaders [1, 2],
       Log (ReceivedHeaders ''Echo'' ''Say''),
       Log (HeaderLine ''trace'' [''on'']),
       Call_Handler 7 ([(''trace'', [''on''])], [])],
      Panicked TypeAssertionFailed)"
proof -
  let ?rq = "request_envelope echo_request ''Echo'' ''Say'' [3, 4, 5] :: byte list RPCRequest"
  let ?rq' = "\<lparr>ID = 42, ServiceName = ''Echo'', Method = ''Say'',
                Payload = NotBytes ([] :: byte list)\<rparr>"
  let ?m = "\<lparr>MethodName = ''Say'', Handler = echo_handler\<rparr>"
  let ?fm = "\<lparr>MethodName = ''Say'', Handler = failing_handler\<rparr>"
  let ?fd = "\<lparr>ServiceImpl = 7 :: nat, ServiceName_of = ''Echo'',
               Methods = [''Say'' \<mapsto> ?fm]\<rparr>"
  let ?md = "[(''trace'', [''on''])] :: MD"
  let ?ctx = "metadata_NewIncomingContext demo_packages (context_Background demo_packages) ?md"
  have h1: "rcv_err echo_request = None" and h2: "rcv_data echo_request = Some (echo_frame, [])"
    by (simp_all add: echo_request_def)
  have h3: "parseFramedRequest echo_frame [] = Inr (''Echo'', ''Say'', [1, 2], [3, 4, 5], None)"
    by (rule parse_echo_frame)
  have e: "echo_server = fst (RegisterService empty_server echo_desc True)"
    by (simp add: echo_server_def RegisterService_def)
  have ctx: "?ctx = (?md, [])"
    by (simp add: demo_packages_def)
  have bg: "context_Background demo_packages = ([], [])"
    by (simp add: demo_packages_def)
  have nic: "metadata_NewIncomingContext demo_packages c md = (md, snd c)" for c :: demo_ctx and md
    by (simp add: demo_packages_def)
  have env: "?rq = \<lparr>ID = 42, ServiceName = ''Echo'', Method = ''Say'', Payload = Bytes [3, 4, 5]\<rparr>"
    by (simp add: request_envelope_def echo_request_def)
  have r1: "echo_handler 7 (?md, []) (decoder_of echo_server ?rq)
      = Inr ([3, 4, 5], (?md, [(''served-by'', [''echo''])]), None)"
    by (simp add: demo_defs)
  have r2: "failing_handler 7 (?md, []) (decoder_of failing_server ?rq)
      = Inr ([], (?md, []), Some (GoError ''boom''))"
    by (simp add: failing_handler_def)
  have r3: "echo_handler 7 (?md, []) (decoder_of retype_server ?rq') = Inl TypeAssertionFailed"
    by (simp add: echo_handler_def decoder_of_def)
  have called: "Call_Handler 7 (?md, [])
      \<in> set (fst (Start demo_packages echo_server [echo_request]))"
    by (simp add: Start_def echo_trace)
  have hyp_echo: "rcv_err echo_request = None \<and> rcv_data echo_request = Some (echo_frame, []) \<and>
      parseFramedRequest echo_frame [] = Inr (''Echo'', ''Say'', [1, 2], [3, 4, 5], None) \<and>
      rpcElementChain_ProcessRequest echo_server (context_Background demo_packages) ?rq
        = Inr ?rq \<and>
      services echo_server (ServiceName ?rq) = Some echo_desc \<and>
      Methods echo_desc (Method ?rq) = Some ?m \<and>
      metadataCodec_DecodeHeaders echo_server [1, 2] = Inr ?md"
    using h1 h2 h3 echo_decode
    by (simp add: echo_services echo_methods request_envelope_def)
       (simp add: echo_server_def RegisterService_def empty_server_def)
  have hyp_failing: "rcv_err echo_request = None \<and> rcv_data echo_request = Some (echo_frame, []) \<and>
      parseFramedRequest echo_frame [] = Inr (''Echo'', ''Say'', [1, 2], [3, 4, 5], None) \<and>
      rpcElementChain_ProcessRequest failing_server (context_Background demo_packages) ?rq
        = Inr ?rq \<and>
      services failing_server (ServiceName ?rq) = Some ?fd \<and>
      Methods ?fd (Method ?rq) = Some ?fm \<and>
      metadataCodec_DecodeHeaders failing_server [1, 2] = Inr ?md"
    using h1 h2 h3 failing_facts
    by (simp add: failing_services request_envelope_def)
  have hyp_retype: "rcv_err echo_request = None \<and> rcv_data echo_request = Some (echo_frame, []) \<and>
      parseFramedRequest echo_frame [] = Inr (''Echo'', ''Say'', [1, 2], [3, 4, 5], None) \<and>
      rpcElementChain_ProcessRequest retype_server (context_Background demo_packages) ?rq
        = Inr ?rq' \<and>
      services retype_server (ServiceName ?rq') = Some echo_desc \<and>
      Methods echo_desc (Method ?rq') = Some ?m \<and>
      metadataCodec_DecodeHeaders retype_server [1, 2] = Inr ?md"
    using h1 h2 h3 retype_facts
    by (simp add: echo_methods request_envelope_def)
  note registered = register_impl_ignored [where s = empty_server and desc = echo_desc
      and ?impl1.0 = "99 :: nat" and ?impl2.0 = True and pk = demo_packages
      and rs = "[echo_request]" and i = 7 and ctx = "(?md, [])" and r = echo_request
      and data = echo_frame and extra = "[]" and sn = "''Echo''" and mn = "''Say''"
      and hb = "[1, 2]" and pb = "[3, 4, 5]" and perr = None and rq = ?rq
      and d = echo_desc and m = ?m and md = ?md]
  note served = register_impl_ignored [where s = echo_server and desc = echo_desc
      and ?impl1.0 = "99 :: nat" and ?impl2.0 = True and pk = demo_packages
      and rs = "[echo_request]" and i = 7 and ctx = "(?md, [])" and r = echo_request
      and data = echo_frame and extra = "[]" and sn = "''Echo''" and mn = "''Say''"
      and hb = "[1, 2]" and pb = "[3, 4, 5]" and perr = None and rq = ?rq
      and d = echo_desc and m = ?m and md = ?md,
      THEN conjunct2, THEN conjunct2, THEN conjunct2]
  note failed = register_impl_ignored [where s = failing_server and desc = ?fd
      and ?impl1.0 = "99 :: nat" and ?impl2.0 = True and pk = demo_packages
      and rs = "[echo_request]" and i = 7 and ctx = "(?md, [])" and r = echo_request
      and data = echo_frame and extra = "[]" and sn = "''Echo''" and mn = "''Say''"
      and hb = "[1, 2]" and pb = "[3, 4, 5]" and perr = None and rq = ?rq
      and d = ?fd and m = ?fm and md = ?md,
      THEN conjunct2, THEN conjunct2, THEN conjunct2, THEN conjunct2, THEN mp, OF hyp_failing]
  note retyped = register_impl_ignored [where s = retype_server and desc = echo_desc
      and ?impl1.0 = "99 :: nat" and ?impl2.0 = True and pk = demo_packages
      and rs = "[echo_request]" and i = 7 and ctx = "(?md, [])" and r = echo_request
      and data = echo_frame and extra = "[]" and sn = "''Echo''" and mn = "''Say''"
      and hb = "[1, 2]" and pb = "[3, 4, 5]" and perr = None and rq = ?rq'
      and d = echo_desc and m = ?m and md = ?md,
      THEN conjunct2, THEN conjunct2, THEN conjunct2, THEN conjunct2, THEN mp, OF hyp_retype]
  from registered
  have c1: "RegisterService empty_server echo_desc (99 :: nat)
      = RegisterService empty_server echo_desc True"
    by (rule conjunct1)
  have echo_name: "ServiceName_of echo_desc = ''Echo''"
    by (simp add: echo_desc_def)
  from registered [THEN conjunct2, THEN conjunct2, THEN conjunct1]
  have c3: "services echo_server ''Echo'' = Some echo_desc"
    by (simp only: c1 e [symmetric] echo_name)
  from served [THEN conjunct1, THEN mp, OF called]
  obtain d where d: "services echo_server ''Echo'' = Some d" "7 = ServiceImpl d"
    using h2 h3 by (auto simp add: request_envelope_def echo_server_def RegisterService_def
        empty_server_def)
  with c3 have c4: "ServiceImpl echo_desc = 7"
    by simp
  from served [THEN conjunct2, THEN mp, OF hyp_echo, THEN conjunct2, THEN conjunct2,
      THEN conjunct2, THEN spec, THEN spec, THEN mp, of "[3, 4, 5]"
      "(?md, [(''served-by'', [''echo''])])"] r1
  obtain u where u: "fst (serve_one demo_packages echo_server echo_request) =
      [Call_ProcessRequest (context_Background demo_packages) ?rq,
       Call_DecodeHeaders [1, 2], Log (ReceivedHeaders (ServiceName ?rq) (Method ?rq))]
      @ map (\<lambda>(k, v). Log (HeaderLine k v)) ?md
      @ [Call_Handler (ServiceImpl echo_desc) ?ctx,
         Call_ProcessResponse (?md, [(''served-by'', [''echo''])])
           \<lparr>Result = [3, 4, 5], Error = None\<rparr>] @ u"
    by (auto simp add: ctx c4 echo_methods)
  have c5: "take 6 (fst (serve_one demo_packages echo_server echo_request)) =
     [Call_ProcessRequest ([], [])
        \<lparr>ID = 42, ServiceName = ''Echo'', Method = ''Say'', Payload = Bytes [3, 4, 5]\<rparr>,
      Call_DecodeHeaders [1, 2],
      Log (ReceivedHeaders ''Echo'' ''Say''),
      Log (HeaderLine ''trace'' [''on'']),
      Call_Handler 7 ([(''trace'', [''on''])], []),
      Call_ProcessResponse ([(''trace'', [''on''])], [(''served-by'', [''echo''])])
        \<lparr>Result = [3, 4, 5], Error = None\<rparr>]"
    by (subst u) (simp add: c4 request_envelope_def echo_request_def demo_packages_def)
  from failed [THEN conjunct2, THEN conjunct2, THEN conjunct1, THEN spec, THEN spec, THEN spec,
      THEN mp, of "[]" "(?md, [])" "GoError ''boom''"] r2
  have c6: "serve_one demo_packages failing_server echo_request =
     ([Call_ProcessRequest ([], [])
         \<lparr>ID = 42, ServiceName = ''Echo'', Method = ''Say'', Payload = Bytes [3, 4, 5]\<rparr>,
       Call_DecodeHeaders [1, 2],
       Log (ReceivedHeaders ''Echo'' ''Say''),
       Log (HeaderLine ''trace'' [''on'']),
       Call_Handler 7 ([(''trace'', [''on''])], []),
       Log (HandlerError (GoError ''boom''))],
      Continue)"
    by (simp add: nic env bg)
  from retyped [THEN conjunct2, THEN conjunct1, THEN spec, THEN mp, of TypeAssertionFailed] r3
  have c7: "serve_one demo_packages retype_server echo_request =
     ([Call_ProcessRequest ([], [])
         \<lparr>ID = 42, ServiceName = ''Echo'', Method = ''Say'', Payload = Bytes [3, 4, 5]\<rparr>,
       Call_DecodeHeaders [1, 2],
       Log (ReceivedHeaders ''Echo'' ''Say''),
       Log (HeaderLine ''trace'' [''on'']),
       Call_Handler 7 ([(''trace'', [''on''])], [])],
      Panicked TypeAssertionFailed)"
    by (simp add: nic env c4 bg)
  from c1 e c3 c4 called h1 h2 h3 r1 c5 r2 c6 r3 c7 show ?thesis
    by (intro conjI)
qed

section \<open>Facts about the resolver\<close>

subsection \<open>Splitting an address and parsing a port\<close>

lemma IndexByte_None_iff: "IndexByte s c = None \<longleftrightarrow> c \<notin> set s"
  by (induction s) auto

lemma IndexByte_first: "c \<notin> set xs \<Longrightarrow> IndexByte (xs @ c # ys) c = Some (length xs)"
  by (induction xs) auto

lemma LastIndexByte_last: "c \<notin> set ys \<Longrightarrow> LastIndexByte (xs @ c # ys) c = Some (length xs)"
  using IndexByte_first [of c "rev ys" "rev xs"]
  by (simp add: LastIndexByte_def)

lemma SplitHostPort_bind_form:
  "SplitHostPort (CHR '':'' # p) = Inr ([], p) \<or> (\<exists>err. SplitHostPort (CHR '':'' # p) = Inl err)"
proof (cases "CHR '':'' \<in> set p")
  case False
  then have "LastIndexByte (CHR '':'' # p) CHR '':'' = Some 0"
    using LastIndexByte_last [of "CHR '':''" p "[]"] by simp
  then show ?thesis
    by (simp add: SplitHostPort_def SplitHostPort_rest_def)
next
  case True
  then obtain xs ys where p: "p = xs @ CHR '':'' # ys" "CHR '':'' \<notin> set ys"
    by (meson split_list_last)
  have "LastIndexByte (CHR '':'' # p) CHR '':'' = Some (Suc (length xs))"
    using LastIndexByte_last [of "CHR '':''" ys "CHR '':'' # xs"] p by simp
  then show ?thesis
    by (simp add: SplitHostPort_def)
qed

lemma parse_digits_digits: "parse_digits ds n = Inr k \<Longrightarrow> \<forall>c \<in> set ds. is_digit c"
  by (induction ds arbitrary: n) (auto split: if_splits)

lemma Atoi_chars:
  assumes "Atoi p = Inr n"
  shows "CHR '':'' \<notin> set p \<and> CHR ''['' \<notin> set p \<and> CHR '']'' \<notin> set p"
proof -
  have ne: "p \<noteq> []"
    using assms by (auto simp add: Atoi_def)
  then obtain c cs where p: "p = c # cs"
    by (cases p) auto
  let ?ds = "if c = CHR ''-'' \<or> c = CHR ''+'' then cs else p"
  obtain k where k: "parse_digits ?ds 0 = Inr k"
    using assms p by (auto simp add: Atoi_def Let_def split: if_splits sum.splits)
  then have dig: "\<forall>x \<in> set ?ds. is_digit x"
    by (rule parse_digits_digits)
  have nd: "\<not> is_digit CHR '':''" "\<not> is_digit CHR ''[''" "\<not> is_digit CHR '']''"
    by (simp_all add: is_digit_def)
  show ?thesis
  proof (cases "c = CHR ''-'' \<or> c = CHR ''+''")
    case True
    with dig nd p show ?thesis by auto
  next
    case False
    with dig nd p show ?thesis by auto
  qed
qed

lemma SplitHostPort_host_port:
  assumes "host \<noteq> []" "CHR '':'' \<notin> set host" "CHR ''['' \<notin> set host" "CHR '']'' \<notin> set host"
    "CHR '':'' \<notin> set p" "CHR ''['' \<notin> set p" "CHR '']'' \<notin> set p"
  shows "SplitHostPort (host @ CHR '':'' # p) = Inr (host, p)"
proof -
  have last: "LastIndexByte (host @ CHR '':'' # p) CHR '':'' = Some (length host)"
    using assms(5) by (rule LastIndexByte_last)
  have first: "(host @ CHR '':'' # p) ! 0 \<noteq> CHR ''[''"
    using assms(1,3) by (cases host) auto
  have nohost: "IndexByte host CHR '':'' = None"
    using assms(2) by (simp add: IndexByte_None_iff)
  have nol: "IndexByte (host @ CHR '':'' # p) CHR ''['' = None"
    using assms(3,6) by (simp add: IndexByte_None_iff)
  have nor: "IndexByte (host @ CHR '':'' # p) CHR '']'' = None"
    using assms(4,7) by (simp add: IndexByte_None_iff)
  show ?thesis
    using first by (simp add: SplitHostPort_def last nohost SplitHostPort_rest_def nol nor)
qed


lemma SplitHostPort_bracketed:
  assumes "CHR ''['' \<notin> set host" "CHR '']'' \<notin> set host"
    "CHR '':'' \<notin> set p" "CHR ''['' \<notin> set p" "CHR '']'' \<notin> set p"
  shows "SplitHostPort (CHR ''['' # host @ CHR '']'' # CHR '':'' # p) = Inr (host, p)"
proof -
  let ?a = "CHR ''['' # host @ CHR '']'' # CHR '':'' # p"
  have last: "LastIndexByte ?a CHR '':'' = Some (length host + 2)"
    using LastIndexByte_last [of "CHR '':''" p "CHR ''['' # host @ [CHR '']'']"] assms(3)
    by simp
  have rb: "IndexByte (host @ CHR '']'' # CHR '':'' # p) CHR '']'' = Some (length host)"
    using assms(2) by (rule IndexByte_first)
  have nol: "IndexByte (host @ CHR '']'' # CHR '':'' # p) CHR ''['' = None"
    using assms(1,4) by (simp add: IndexByte_None_iff)
  have nor: "IndexByte p CHR '']'' = None"
    using assms(5) by (simp add: IndexByte_None_iff)
  show ?thesis
    by (simp add: SplitHostPort_def last rb SplitHostPort_rest_def nol nor)
qed

lemma Atoi_11000: "Atoi ''11000'' = Inr 11000"
  by (simp add: Atoi_def is_digit_def)

lemma Atoi_80: "Atoi ''80'' = Inr 80"
  by (simp add: Atoi_def is_digit_def)

lemma resolve_unbracketed_ipv6:
  "ResolveUDPTarget r ''::1:80'' = (Inl (InvalidPort ''::1:80'' ErrSyntax), [])"
  by (simp add: ResolveUDPTarget_def SplitHostPort_def LastIndexByte_def CutPrefix_def
      Atoi_def is_digit_def)

subsection \<open>Claim C7: the bind form and literal addresses\<close>

text \<open>
  C7 says that for every literal \<^verbatim>\<open>host:p\<close> where \<^verbatim>\<open>host\<close> parses as an IP and
  \<^verbatim>\<open>p\<close> as an integer, the resolver returns that IP with port \<^verbatim>\<open>p\<close> and no error.
  The host \<^verbatim>\<open>::1\<close> parses as an IP and \<^verbatim>\<open>80\<close> as an integer, but on
  \<^verbatim>\<open>::1:80\<close> the resolver returns an error: \<^verbatim>\<open>net.SplitHostPort\<close> refuses the
  colons in the host, the bind form then takes everything after the first colon as the
  port, and that is no integer.
\<close>

theorem resolve_literal_counterexample:
  "net_ParseIP demo_resolver ''::1'' = Some [0, 0, 0, 0, 0, 0, 0, 0, 0, 0, 0, 0, 0, 0, 0, 1] \<and>
   Atoi ''80'' = Inr 80 \<and>
   ResolveUDPTarget demo_resolver (''::1'' @ '':'' @ ''80'') =
     (Inl (InvalidPort ''::1:80'' ErrSyntax), [])"
  using resolve_unbracketed_ipv6 [of demo_resolver]
  by (simp add: Atoi_80) (simp add: demo_resolver_def)

text \<open>
  C7, amended. The resolver handles the bind form: for every address \<^verbatim>\<open>:p\<close> where
  \<^verbatim>\<open>p\<close> parses as an integer it returns the wildcard address 0.0.0.0 with port
  \<^verbatim>\<open>p\<close> and no error. For every literal \<^verbatim>\<open>host:p\<close> where \<^verbatim>\<open>host\<close> parses as
  an IP and is a non-empty string without colon or square bracket (as every dotted IPv4
  literal is), and \<^verbatim>\<open>p\<close> parses as an integer, it returns that IP with port
  \<^verbatim>\<open>p\<close> and no error. A host with colons is resolved so when it is written in
  square brackets, \<^verbatim>\<open>[host]:p\<close>. In each case nothing is logged.
\<close>

theorem resolve_bind_and_literal:
  "(Atoi p = Inr n \<longrightarrow>
      ResolveUDPTarget r (CHR '':'' # p) = (Inr \<lparr>IP = IPv4zero, Port = n, Zone = []\<rparr>, [])) \<and>
   (net_ParseIP r host = Some ip \<and> Atoi p = Inr n \<and> host \<noteq> [] \<and>
    CHR '':'' \<notin> set host \<and> CHR ''['' \<notin> set host \<and> CHR '']'' \<notin> set host \<longrightarrow>
      ResolveUDPTarget r (host @ CHR '':'' # p) = (Inr \<lparr>IP = ip, Port = n, Zone = []\<rparr>, [])) \<and>
   (net_ParseIP r host = Some ip \<and> Atoi p = Inr n \<and> host \<noteq> [] \<and>
    CHR ''['' \<notin> set host \<and> CHR '']'' \<notin> set host \<longrightarrow>
      ResolveUDPTarget r (CHR ''['' # host @ CHR '']'' # CHR '':'' # p) =
        (Inr \<lparr>IP = ip, Port = n, Zone = []\<rparr>, []))"
proof (intro conjI impI)
  assume a: "Atoi p = Inr n"
  from SplitHostPort_bind_form [of p]
  show "ResolveUDPTarget r (CHR '':'' # p) = (Inr \<lparr>IP = IPv4zero, Port = n, Zone = []\<rparr>, [])"
    by (auto simp add: ResolveUDPTarget_def CutPrefix_def a)
next
  assume h: "net_ParseIP r host = Some ip \<and> Atoi p = Inr n \<and> host \<noteq> [] \<and>
    CHR '':'' \<notin> set host \<and> CHR ''['' \<notin> set host \<and> CHR '']'' \<notin> set host"
  then have "SplitHostPort (host @ CHR '':'' # p) = Inr (host, p)"
    using Atoi_chars [of p n] by (simp add: SplitHostPort_host_port)
  with h show "ResolveUDPTarget r (host @ CHR '':'' # p) =
      (Inr \<lparr>IP = ip, Port = n, Zone = []\<rparr>, [])"
    by (simp add: ResolveUDPTarget_def)
next
  assume h: "net_ParseIP r host = Some ip \<and> Atoi p = Inr n \<and> host \<noteq> [] \<and>
    CHR ''['' \<notin> set host \<and> CHR '']'' \<notin> set host"
  then have "SplitHostPort (CHR ''['' # host @ CHR '']'' # CHR '':'' # p) = Inr (host, p)"
    using Atoi_chars [of p n] by (simp add: SplitHostPort_bracketed)
  with h show "ResolveUDPTarget r (CHR ''['' # host @ CHR '']'' # CHR '':'' # p) =
      (Inr \<lparr>IP = ip, Port = n, Zone = []\<rparr>, [])"
    by (simp add: ResolveUDPTarget_def)
qed

theorem resolve_bind_and_literal_witness:
  "Atoi ''11000'' = Inr 11000 \<and>
   ResolveUDPTarget demo_resolver '':11000'' =
     (Inr \<lparr>IP = IPv4zero, Port = 11000, Zone = []\<rparr>, []) \<and>
   net_ParseIP demo_resolver ''127.0.0.1'' =
     Some [0, 0, 0, 0, 0, 0, 0, 0, 0, 0, 0xff, 0xff, 127, 0, 0, 1] \<and>
   Atoi ''80'' = Inr 80 \<and>
   CHR '':'' \<notin> set ''127.0.0.1'' \<and> CHR ''['' \<notin> set ''127.0.0.1'' \<and>
   CHR '']'' \<notin> set ''127.0.0.1'' \<and>
   ResolveUDPTarget demo_resolver ''127.0.0.1:80'' =
     (Inr \<lparr>IP = [0, 0, 0, 0, 0, 0, 0, 0, 0, 0, 0xff, 0xff, 127, 0, 0, 1], Port = 80,
           Zone = []\<rparr>, []) \<and>
   net_ParseIP demo_resolver ''::1'' = Some [0, 0, 0, 0, 0, 0, 0, 0, 0, 0, 0, 0, 0, 0, 0, 1] \<and>
   CHR ''['' \<notin> set ''::1'' \<and> CHR '']'' \<notin> set ''::1'' \<and>
   ResolveUDPTarget demo_resolver ''[::1]:80'' =
     (Inr \<lparr>IP = [0, 0, 0, 0, 0, 0, 0, 0, 0, 0, 0, 0, 0, 0, 0, 1], Port = 80, Zone = []\<rparr>, [])"
proof -
  have p4: "net_ParseIP demo_resolver ''127.0.0.1'' =
      Some [0, 0, 0, 0, 0, 0, 0, 0, 0, 0, 0xff, 0xff, 127, 0, 0, 1]"
    and p6: "net_ParseIP demo_resolver ''::1'' =
      Some [0, 0, 0, 0, 0, 0, 0, 0, 0, 0, 0, 0, 0, 0, 0, 1]"
    by (simp_all add: demo_resolver_def)
  from resolve_bind_and_literal [of "''11000''" 11000 demo_resolver]
    resolve_bind_and_literal [of "''80''" 80 demo_resolver "''127.0.0.1''"
      "[0, 0, 0, 0, 0, 0, 0, 0, 0, 0, 0xff, 0xff, 127, 0, 0, 1]"]
    resolve_bind_and_literal [of "''80''" 80 demo_resolver "''::1''"
      "[0, 0, 0, 0, 0, 0, 0, 0, 0, 0, 0, 0, 0, 0, 0, 1]"]
  show ?thesis
    by (simp add: Atoi_11000 Atoi_80 p4 p6)
qed

subsection \<open>Claim C10: the empty address\<close>

text \<open>
  C10. For the empty address string the resolver returns the wildcard address 0.0.0.0
  with port 0 and no error; it does not reject the input, and it logs nothing.
\<close>

theorem resolve_empty:
  "ResolveUDPTarget r [] = (Inr \<lparr>IP = IPv4zero, Port = 0, Zone = []\<rparr>, [])"
  by (simp add: ResolveUDPTarget_def)

end
